theory Spec2Isabelle
  imports Main "HOL-Library.Word" "HOL-Library.Sublist"
begin

section \<open>Data model\<close>

text \<open>
  The development embeds the core module of the TypingMind cloud backup script
  (\<^verbatim>\<open>src/unnamed/part_000\<close>): the encryption envelope, the metadata caches, the
  push/pull operations, the direction decision, \<^verbatim>\<open>performSync\<close> and the daily timer.
  Module-level variables become fields of a \<open>world\<close> record that every operation takes
  and returns; a thrown exception is the \<open>Inl\<close> branch of a sum. Logging, the storage
  client object, the timer handle and the user interface have no part in what is
  proved and are left out.
\<close>

type_synonym byte = "8 word"
type_synonym bytes = "byte list"

text \<open>
  JSON values as \<^verbatim>\<open>JSON.parse\<close> yields them. Numbers are integers here (epoch
  milliseconds and counts); \<^verbatim>\<open>undefined\<close> is the \<open>None\<close> of a \<open>json option\<close>.
\<close>

datatype json =
    JNull
  | JBool bool
  | JNum int
  | JStr string
  | JArr "json list"
  | JObj "(string \<times> json) list"

text \<open>Every \<^verbatim>\<open>Error\<close> the module throws or lets through, by message or by name.\<close>

datatype error =
    ConfigIncomplete              \<comment> \<open>\<^verbatim>\<open>GCS configuration is incomplete\<close>\<close>
  | StorageError                  \<comment> \<open>a rejected request of the storage SDK\<close>
  | KeyDerivationFailed           \<comment> \<open>\<^verbatim>\<open>Failed to derive encryption key\<close>\<close>
  | EncryptFailed                 \<comment> \<open>\<^verbatim>\<open>Failed to encrypt data\<close>\<close>
  | DecryptFailed                 \<comment> \<open>\<^verbatim>\<open>Failed to decrypt data\<close>\<close>
  | InvalidPasswordOrCorruptedData
      \<comment> \<open>\<^verbatim>\<open>Decryption failed: Invalid password or corrupted data\<close>\<close>
  | InvalidDataStructure          \<comment> \<open>\<^verbatim>\<open>Invalid data structure\<close>\<close>
  | InvalidBackupDataStructure    \<comment> \<open>\<^verbatim>\<open>Invalid backup data structure\<close>\<close>
  | NoCloudMetadataFound          \<comment> \<open>\<^verbatim>\<open>No cloud metadata found\<close>\<close>
  | NoBackupsFound                \<comment> \<open>\<^verbatim>\<open>No backups found in cloud storage\<close>\<close>
  | DownloadFailed                \<comment> \<open>\<^verbatim>\<open>Failed to download backup from cloud\<close>\<close>
  | EncryptionKeyMissing          \<comment> \<open>\<^verbatim>\<open>Encryption key not configured but ...\<close>\<close>
  | SyntaxError                   \<comment> \<open>thrown by \<^verbatim>\<open>JSON.parse\<close>\<close>
  | TypeError                     \<comment> \<open>property read on \<^verbatim>\<open>null\<close>\<close>
  | QuotaExceeded                 \<comment> \<open>thrown by \<^verbatim>\<open>localStorage.setItem\<close>\<close>

text \<open>The header object that \<^verbatim>\<open>encryptData\<close> serialises in front of the salt.\<close>

record header =
  version :: int
  algorithm :: string
  keyDerivation :: string
  iterations :: int
  saltSize :: int
  ivSize :: int
  hdr_timestamp :: int

text \<open>
  The built-ins of the JavaScript platform that the module calls are parameters:
  text encoding, JSON, number formatting, the two WebCrypto primitives and the
  acceptance of a \<^verbatim>\<open>localStorage.setItem\<close>.
  \<^item> \<open>encode_header\<close> is \<^verbatim>\<open>new TextEncoder().encode(JSON.stringify(header))\<close>;
    \<open>decode_header\<close> is \<^verbatim>\<open>JSON.parse(new TextDecoder().decode(headerBytes))\<close> read
    at the integer fields the code uses, \<open>None\<close> when \<^verbatim>\<open>JSON.parse\<close> throws. Headers
    whose fields are not integers are not represented.
  \<^item> \<open>pbkdf2\<close> is \<^verbatim>\<open>importKey\<close> followed by \<^verbatim>\<open>deriveKey\<close>, \<open>None\<close> when either rejects.
  \<^item> \<open>aes_gcm_decrypt\<close> returns \<open>None\<close> when \<^verbatim>\<open>crypto.subtle.decrypt\<close> rejects with
    an \<^verbatim>\<open>OperationError\<close>, which is how a failed tag verification shows.
  \<^item> \<open>coerce\<close> is \<^verbatim>\<open>ToNumber\<close> on strings, arrays and objects, \<open>None\<close> for
    \<^verbatim>\<open>NaN\<close>; \<open>parseInt\<close> likewise answers \<open>None\<close> for \<^verbatim>\<open>NaN\<close>.
  \<^item> \<open>array_sort\<close> is \<^verbatim>\<open>Array.prototype.sort\<close> on a list of listed files with a
    comparator whose answer is a number or \<^verbatim>\<open>NaN\<close> (\<open>None\<close>). It is consulted only
    for a comparator that answers \<^verbatim>\<open>NaN\<close> somewhere; what it does then is the
    platform's matter, so nothing is assumed of it.
\<close>

text \<open>
  An entry of a listing (without \<^verbatim>\<open>Size\<close> and \<^verbatim>\<open>LastModified\<close>, which nothing
  reads).
\<close>

record listing =
  Key :: string
  file_metadata :: "(string \<times> string) list"

record platform =
  utf8_encode :: "string \<Rightarrow> bytes"
  utf8_decode :: "bytes \<Rightarrow> string"
  JSON_stringify :: "json \<Rightarrow> string"
  JSON_parse :: "string \<Rightarrow> json option"
  num_toString :: "int \<Rightarrow> string"
  parseInt :: "string \<Rightarrow> int option"
  array_sort :: "(listing \<Rightarrow> listing \<Rightarrow> int option) \<Rightarrow> listing list \<Rightarrow> listing list"
  coerce :: "json \<Rightarrow> int option"
  encode_header :: "header \<Rightarrow> bytes"
  decode_header :: "bytes \<Rightarrow> header option"
  pbkdf2 :: "bytes \<Rightarrow> bytes \<Rightarrow> int \<Rightarrow> bytes option"
  aes_gcm_encrypt :: "bytes \<Rightarrow> bytes \<Rightarrow> bytes \<Rightarrow> bytes option"
  aes_gcm_decrypt :: "bytes \<Rightarrow> bytes \<Rightarrow> bytes \<Rightarrow> bytes option"
  setItem_accepted :: "string \<Rightarrow> string \<Rightarrow> bool"

text \<open>The \<^verbatim>\<open>config\<close> object.\<close>

record config =
  syncMode :: string
  syncHour :: int
  syncMinute :: int
  projectId :: string
  bucketName :: string
  keyFilename :: string
  encryptionKey :: string
  encryptionEnabled :: bool
  lastSyncTime :: int
  lastSyncDate :: string

text \<open>
  One reading of the clock: \<^verbatim>\<open>Date.now()\<close>, the date part of \<^verbatim>\<open>toISOString()\<close>,
  \<^verbatim>\<open>getHours()\<close> and \<^verbatim>\<open>getMinutes()\<close>. The clock stands still during one operation.
\<close>

record instant =
  epoch_ms :: int
  iso_date :: string
  local_hours :: int
  local_minutes :: int

text \<open>A stored object of the bucket and the result of a download.\<close>

record gcs_object =
  obj_data :: bytes
  obj_metadata :: "(string \<times> string) list"
  obj_contentType :: string

record download =
  dl_data :: bytes
  dl_metadata :: "(string \<times> string) list"

text \<open>The value of \<^verbatim>\<open>localMetadata\<close>: \<^verbatim>\<open>{ data, timestamp: Date.now() }\<close>.\<close>

record local_metadata =
  lm_data :: json
  lm_timestamp :: int

text \<open>
  The module state and its surroundings. \<open>net\<close> lists the outcomes of the coming
  requests to the storage service (\<open>True\<close>: the request is rejected; an empty list: all
  succeed); \<open>entropy\<close> is the stream \<^verbatim>\<open>crypto.getRandomValues\<close> draws from.
  \<open>cloudMetadata\<close> holds \<open>JNull\<close> for \<^verbatim>\<open>null\<close>.
\<close>

record world =
  config :: config
  isRunning :: bool
  localMetadata :: "local_metadata option"
  cloudMetadata :: json
  localStorage :: "string \<rightharpoonup> string"
  bucket :: "(string \<times> gcs_object) list"
  net :: "bool list"
  entropy :: "nat \<Rightarrow> byte"
  now :: instant

type_synonym 'a result = "(error + 'a) \<times> world"

section \<open>JavaScript values\<close>

text \<open>Truthiness of a value, and of a possibly undefined one.\<close>

fun truthy :: "json \<Rightarrow> bool" where
  "truthy JNull = False"
| "truthy (JBool b) = b"
| "truthy (JNum n) = (n \<noteq> 0)"
| "truthy (JStr s) = (s \<noteq> [])"
| "truthy (JArr xs) = True"
| "truthy (JObj kvs) = True"

definition truthy_opt :: "json option \<Rightarrow> bool" where
  "truthy_opt v = (case v of None \<Rightarrow> False | Some j \<Rightarrow> truthy j)"

text \<open>
  Reading one of the properties \<^verbatim>\<open>data\<close>, \<^verbatim>\<open>chats\<close>, \<^verbatim>\<open>settings\<close>, \<^verbatim>\<open>favorites\<close>,
  \<^verbatim>\<open>folders\<close>, \<^verbatim>\<open>timestamp\<close> of a value that is not \<^verbatim>\<open>null\<close>: only an object can
  have it.
\<close>

fun get_prop :: "json \<Rightarrow> string \<Rightarrow> json option" where
  "get_prop (JObj kvs) k = map_of kvs k"
| "get_prop _ k = None"

text \<open>\<^verbatim>\<open>Object.keys(v).length\<close> for a truthy \<open>v\<close>.\<close>

fun object_keys_length :: "json \<Rightarrow> int" where
  "object_keys_length (JObj kvs) = int (length (remdups (map fst kvs)))"
| "object_keys_length (JArr xs) = int (length xs)"
| "object_keys_length (JStr s) = int (length s)"
| "object_keys_length _ = 0"

text \<open>\<^verbatim>\<open>ToNumber\<close>, and \<^verbatim>\<open>a > b\<close> where one side is a number.\<close>

definition to_number :: "platform \<Rightarrow> json \<Rightarrow> int option" where
  "to_number P v =
     (case v of
        JNum n \<Rightarrow> Some n
      | JBool b \<Rightarrow> Some (if b then 1 else 0)
      | JNull \<Rightarrow> Some 0
      | _ \<Rightarrow> coerce P v)"

definition js_gt :: "platform \<Rightarrow> json \<Rightarrow> json \<Rightarrow> bool" where
  "js_gt P a b =
     (case (to_number P a, to_number P b) of
        (Some x, Some y) \<Rightarrow> x > y
      | _ \<Rightarrow> False)"

text \<open>\<^verbatim>\<open>v || 0\<close>.\<close>

definition or_zero :: "json option \<Rightarrow> json" where
  "or_zero v = (case v of Some j \<Rightarrow> (if truthy j then j else JNum 0) | None \<Rightarrow> JNum 0)"

section \<open>Local storage and configuration\<close>

text \<open>
  \<^verbatim>\<open>localStorage.setItem\<close> either stores the value or throws; a list of writes made in
  sequence stops at the first one that throws.
\<close>

definition setItem :: "platform \<Rightarrow> string \<Rightarrow> string \<Rightarrow> world \<Rightarrow> unit result" where
  "setItem P k v w =
     (if setItem_accepted P k v
      then (Inr (), w\<lparr>localStorage := (localStorage w)(k \<mapsto> v)\<rparr>)
      else (Inl QuotaExceeded, w))"

fun setItems :: "platform \<Rightarrow> (string \<times> string) list \<Rightarrow> world \<Rightarrow> unit result" where
  "setItems P [] w = (Inr (), w)"
| "setItems P ((k, v) # kvs) w =
     (case setItem P k v w of
        (Inl e, w') \<Rightarrow> (Inl e, w')
      | (Inr _, w') \<Rightarrow> setItems P kvs w')"

definition bool_toString :: "bool \<Rightarrow> string" where
  "bool_toString b = (if b then ''true'' else ''false'')"

text \<open>\<^verbatim>\<open>saveConfiguration\<close>: ten writes inside a \<^verbatim>\<open>try\<close> whose \<^verbatim>\<open>catch\<close> only logs.\<close>

definition saveConfiguration :: "platform \<Rightarrow> world \<Rightarrow> world" where
  "saveConfiguration P w =
     (let c = config w in
      snd (setItems P
        [(''gcs-bucket'', bucketName c),
         (''gcs-project-id'', projectId c),
         (''gcs-key-filename'', keyFilename c),
         (''sync-hour'', num_toString P (syncHour c)),
         (''sync-minute'', num_toString P (syncMinute c)),
         (''encryption-key'', encryptionKey c),
         (''encryption-enabled'', bool_toString (encryptionEnabled c)),
         (''sync-mode'', syncMode c),
         (''last-sync-time'', num_toString P (lastSyncTime c)),
         (''last-sync-date'', lastSyncDate c)] w))"

definition isGcsConfigured :: "config \<Rightarrow> bool" where
  "isGcsConfigured c = (projectId c \<noteq> [] \<and> keyFilename c \<noteq> [] \<and> bucketName c \<noteq> [])"

section \<open>The object store\<close>

text \<open>
  \<^verbatim>\<open>initializeGCSClient\<close> throws when the configuration is incomplete; the client
  object itself is not represented.
\<close>

definition initializeGCSClient :: "world \<Rightarrow> error + unit" where
  "initializeGCSClient w =
     (if \<not> isGcsConfigured (config w) then Inl ConfigIncomplete else Inr ())"

text \<open>One request to the service: it takes the next outcome from \<open>net\<close>.\<close>

definition request :: "world \<Rightarrow> bool \<times> world" where
  "request w = (case net w of [] \<Rightarrow> (False, w) | r # rs \<Rightarrow> (r, w\<lparr>net := rs\<rparr>))"

fun put_object ::
  "string \<Rightarrow> gcs_object \<Rightarrow> (string \<times> gcs_object) list \<Rightarrow> (string \<times> gcs_object) list" where
  "put_object k v [] = [(k, v)]"
| "put_object k v ((k', v') # xs) =
     (if k = k' then (k, v) # xs else (k', v') # put_object k v xs)"

definition content_type_of :: "string \<Rightarrow> string" where
  "content_type_of key =
     (if suffix ''.json'' key then ''application/json''
      else if suffix ''.zip'' key then ''application/zip''
      else ''application/octet-stream'')"

definition uploadToGCS ::
  "string \<Rightarrow> bytes \<Rightarrow> (string \<times> string) list \<Rightarrow> world \<Rightarrow> bool result" where
  "uploadToGCS key data metadata w =
     (case initializeGCSClient w of
        Inl e \<Rightarrow> (Inl e, w)
      | Inr _ \<Rightarrow>
          (case request w of
             (True, w1) \<Rightarrow> (Inl StorageError, w1)
           | (False, w1) \<Rightarrow>
               (Inr True,
                w1\<lparr>bucket := put_object key
                   \<lparr>obj_data = data, obj_metadata = metadata,
                    obj_contentType = content_type_of key\<rparr> (bucket w1)\<rparr>)))"

text \<open>\<^verbatim>\<open>key.replace("x-goog-meta-", "")\<close>: the first occurrence is removed.\<close>

fun replace_first :: "string \<Rightarrow> string \<Rightarrow> string" where
  "replace_first pat [] = []"
| "replace_first pat (c # cs) =
     (if prefix pat (c # cs) then drop (length pat) (c # cs)
      else c # replace_first pat cs)"

text \<open>
  \<^verbatim>\<open>cleanMetadata[cleanKey] = value\<close>: a key that is already there keeps its place and
  takes the new value, a new key goes to the end. The order of the pairs stands for the
  order of insertion only; nothing reads it.
\<close>

fun set_property :: "string \<Rightarrow> string \<Rightarrow> (string \<times> string) list \<Rightarrow> (string \<times> string) list" where
  "set_property k v [] = [(k, v)]"
| "set_property k v ((k', v') # xs) =
     (if k = k' then (k, v) # xs else (k', v') # set_property k v xs)"

definition clean_metadata :: "(string \<times> string) list \<Rightarrow> (string \<times> string) list" where
  "clean_metadata m =
     foldl (\<lambda>cleanMetadata (k, v). set_property (replace_first ''x-goog-meta-'' k) v cleanMetadata)
       [] m"

text \<open>
  \<^verbatim>\<open>downloadFromGCS\<close>: a missing object (code 404) gives \<^verbatim>\<open>null\<close>, here \<open>Inr None\<close>;
  any other failure is thrown again.
\<close>

definition downloadFromGCS :: "string \<Rightarrow> world \<Rightarrow> download option result" where
  "downloadFromGCS key w =
     (case initializeGCSClient w of
        Inl e \<Rightarrow> (Inl e, w)
      | Inr _ \<Rightarrow>
          (case request w of
             (True, w1) \<Rightarrow> (Inl StorageError, w1)
           | (False, w1) \<Rightarrow>
               (case map_of (bucket w1) key of
                  None \<Rightarrow> (Inr None, w1)
                | Some obj \<Rightarrow>
                    (case request w1 of
                       (True, w2) \<Rightarrow> (Inl StorageError, w2)
                     | (False, w2) \<Rightarrow>
                         (Inr (Some \<lparr>dl_data = obj_data obj,
                                     dl_metadata = clean_metadata (obj_metadata obj)\<rparr>),
                          w2)))))"

text \<open>
  \<^verbatim>\<open>listGCSObjects\<close>: one request for the file list, then one per file for its
  metadata; a file whose metadata request fails is listed with empty metadata.
\<close>

fun list_entries :: "(string \<times> gcs_object) list \<Rightarrow> world \<Rightarrow> listing list \<times> world" where
  "list_entries [] w = ([], w)"
| "list_entries ((k, obj) # fs) w =
     (case request w of
        (rejected, w1) \<Rightarrow>
          (case list_entries fs w1 of
             (es, w2) \<Rightarrow>
               (\<lparr>Key = k, file_metadata = (if rejected then [] else obj_metadata obj)\<rparr> # es,
                w2)))"

definition listGCSObjects :: "string \<Rightarrow> world \<Rightarrow> listing list result" where
  "listGCSObjects pfx w =
     (case initializeGCSClient w of
        Inl e \<Rightarrow> (Inl e, w)
      | Inr _ \<Rightarrow>
          (case request w of
             (True, w1) \<Rightarrow> (Inl StorageError, w1)
           | (False, w1) \<Rightarrow>
               (case list_entries (filter (\<lambda>(k, obj). prefix pfx k) (bucket w1)) w1 of
                  (es, w2) \<Rightarrow> (Inr es, w2))))"

section \<open>The encryption envelope\<close>

datatype payload = Text string | Binary bytes

definition payload_bytes :: "platform \<Rightarrow> payload \<Rightarrow> bytes" where
  "payload_bytes P d = (case d of Text s \<Rightarrow> utf8_encode P s | Binary b \<Rightarrow> b)"

definition getRandomBytes :: "nat \<Rightarrow> world \<Rightarrow> bytes \<times> world" where
  "getRandomBytes n w =
     (map (entropy w) [0..<n], w\<lparr>entropy := (\<lambda>i. entropy w (i + n))\<rparr>)"

text \<open>
  \<^verbatim>\<open>deriveKey\<close>: whatever \<^verbatim>\<open>importKey\<close> or \<^verbatim>\<open>deriveKey\<close> throws is replaced by
  \<^verbatim>\<open>Failed to derive encryption key\<close>.
\<close>

definition deriveKey :: "platform \<Rightarrow> string \<Rightarrow> bytes \<Rightarrow> int \<Rightarrow> error + bytes" where
  "deriveKey P password salt iters =
     (case pbkdf2 P (utf8_encode P password) salt iters of
        None \<Rightarrow> Inl KeyDerivationFailed
      | Some k \<Rightarrow> Inr k)"

text \<open>
  The bytes of \<^verbatim>\<open>new Uint32Array([n]).buffer\<close> (the value wraps at 32 bits, least
  significant byte first), and \<^verbatim>\<open>dataView.getUint32(0, true)\<close>, which throws a
  \<^verbatim>\<open>RangeError\<close> on fewer than four bytes.
\<close>

definition uint32_bytes :: "nat \<Rightarrow> bytes" where
  "uint32_bytes n =
     (let m = n mod 2 ^ 32
      in [of_nat m, of_nat (m div 256), of_nat (m div 65536), of_nat (m div 16777216)])"

definition getUint32 :: "bytes \<Rightarrow> nat option" where
  "getUint32 buf =
     (case buf of
        b0 # b1 # b2 # b3 # _ \<Rightarrow>
          Some (unat b0 + 256 * unat b1 + 65536 * unat b2 + 16777216 * unat b3)
      | _ \<Rightarrow> None)"

text \<open>
  \<^verbatim>\<open>new Uint8Array(buffer, offset, length)\<close> and \<^verbatim>\<open>new Uint8Array(buffer, offset)\<close>:
  \<open>None\<close> is the \<^verbatim>\<open>RangeError\<close> of a view that does not fit the buffer.
\<close>

definition view :: "bytes \<Rightarrow> int \<Rightarrow> int \<Rightarrow> bytes option" where
  "view buf off len =
     (if off < 0 \<or> len < 0 \<or> off + len > int (length buf) then None
      else Some (take (nat len) (drop (nat off) buf)))"

definition view_rest :: "bytes \<Rightarrow> int \<Rightarrow> bytes option" where
  "view_rest buf off =
     (if off < 0 \<or> off > int (length buf) then None else Some (drop (nat off) buf))"

definition make_header :: "int \<Rightarrow> int \<Rightarrow> int \<Rightarrow> header" where
  "make_header salt_len iv_len t =
     \<lparr>version = 1, algorithm = ''AES-GCM'', keyDerivation = ''PBKDF2'',
      iterations = 100000, saltSize = salt_len, ivSize = iv_len, hdr_timestamp = t\<rparr>"

text \<open>
  \<^verbatim>\<open>encryptData\<close>: every failure inside is replaced by \<^verbatim>\<open>Failed to encrypt data\<close>.
  The result is header length, header, salt, IV and ciphertext with tag, in this order.
\<close>

definition encryptData :: "platform \<Rightarrow> payload \<Rightarrow> string \<Rightarrow> world \<Rightarrow> bytes result" where
  "encryptData P data password w =
     (case getRandomBytes 16 w of
        (salt, w1) \<Rightarrow>
          (case getRandomBytes 12 w1 of
             (iv, w2) \<Rightarrow>
               (case deriveKey P password salt 100000 of
                  Inl e \<Rightarrow> (Inl EncryptFailed, w2)
                | Inr key \<Rightarrow>
                    (case aes_gcm_encrypt P key iv (payload_bytes P data) of
                       None \<Rightarrow> (Inl EncryptFailed, w2)
                     | Some encryptedData \<Rightarrow>
                         (let headerBytes =
                                encode_header P
                                  (make_header (int (length salt)) (int (length iv))
                                     (epoch_ms (now w2)));
                              headerLength = uint32_bytes (length headerBytes)
                          in (Inr (headerLength @ headerBytes @ salt @ iv @ encryptedData),
                              w2))))))"

text \<open>
  \<^verbatim>\<open>decryptData\<close>, in two parts. \<open>decryptData_open\<close> is the body up to the key
  derivation (reading the header, rejecting a version above 1, cutting out salt, IV
  and ciphertext); each exception there has a name other than \<^verbatim>\<open>OperationError\<close>,
  so the \<^verbatim>\<open>catch\<close> turns it into \<^verbatim>\<open>Failed to decrypt data\<close>.
\<close>

definition decryptData_open ::
  "platform \<Rightarrow> bytes \<Rightarrow> string \<Rightarrow> error + (bytes \<times> bytes \<times> bytes)" where
  "decryptData_open P encryptedData password =
     (case getUint32 encryptedData of
        None \<Rightarrow> Inl DecryptFailed
      | Some headerLength \<Rightarrow>
          (case view encryptedData 4 (int headerLength) of
             None \<Rightarrow> Inl DecryptFailed
           | Some headerBytes \<Rightarrow>
               (case decode_header P headerBytes of
                  None \<Rightarrow> Inl DecryptFailed
                | Some hdr \<Rightarrow>
                    if version hdr > 1 then Inl DecryptFailed
                    else
                      (let saltOffset = 4 + int headerLength;
                           ivOffset = saltOffset + saltSize hdr;
                           dataOffset = ivOffset + ivSize hdr
                       in (case view encryptedData saltOffset (saltSize hdr) of
                             None \<Rightarrow> Inl DecryptFailed
                           | Some salt \<Rightarrow>
                               (case view encryptedData ivOffset (ivSize hdr) of
                                  None \<Rightarrow> Inl DecryptFailed
                                | Some iv \<Rightarrow>
                                    (case view_rest encryptedData dataOffset of
                                       None \<Rightarrow> Inl DecryptFailed
                                     | Some data \<Rightarrow>
                                         (case deriveKey P password salt (iterations hdr) of
                                            Inl e \<Rightarrow> Inl DecryptFailed
                                          | Inr key \<Rightarrow> Inr (key, iv, data)))))))))"

definition decryptData :: "platform \<Rightarrow> bytes \<Rightarrow> string \<Rightarrow> error + bytes" where
  "decryptData P encryptedData password =
     (case decryptData_open P encryptedData password of
        Inl e \<Rightarrow> Inl e
      | Inr (key, iv, data) \<Rightarrow>
          (case aes_gcm_decrypt P key iv data of
             None \<Rightarrow> Inl InvalidPasswordOrCorruptedData
           | Some decryptedData \<Rightarrow> Inr decryptedData))"

section \<open>Application data and metadata\<close>

text \<open>\<^verbatim>\<open>JSON.parse(localStorage.getItem(k) || dflt)\<close>.\<close>

definition parse_item :: "platform \<Rightarrow> world \<Rightarrow> string \<Rightarrow> string \<Rightarrow> error + json" where
  "parse_item P w k dflt =
     (case JSON_parse P
             (case localStorage w k of
                None \<Rightarrow> dflt
              | Some s \<Rightarrow> (if s = [] then dflt else s)) of
        None \<Rightarrow> Inl SyntaxError
      | Some j \<Rightarrow> Inr j)"

definition getApplicationData :: "platform \<Rightarrow> world \<Rightarrow> error + json" where
  "getApplicationData P w =
     (case parse_item P w ''chats'' ''{}'' of
        Inl e \<Rightarrow> Inl e
      | Inr chats \<Rightarrow>
          (case parse_item P w ''settings'' ''{}'' of
             Inl e \<Rightarrow> Inl e
           | Inr settings \<Rightarrow>
               (case parse_item P w ''favorites'' ''[]'' of
                  Inl e \<Rightarrow> Inl e
                | Inr favorites \<Rightarrow>
                    (case parse_item P w ''folders'' ''[]'' of
                       Inl e \<Rightarrow> Inl e
                     | Inr folders \<Rightarrow>
                         Inr (JObj [(''chats'', chats), (''settings'', settings),
                                    (''favorites'', favorites), (''folders'', folders),
                                    (''timestamp'', JNum (epoch_ms (now w)))])))))"

text \<open>\<^verbatim>\<open>if (data.k) localStorage.setItem(k, JSON.stringify(data.k))\<close>.\<close>

definition restore_field :: "platform \<Rightarrow> json \<Rightarrow> string \<Rightarrow> world \<Rightarrow> unit result" where
  "restore_field P data k w =
     (case get_prop data k of
        None \<Rightarrow> (Inr (), w)
      | Some v \<Rightarrow> (if truthy v then setItem P k (JSON_stringify P v) w else (Inr (), w)))"

definition restoreApplicationData :: "platform \<Rightarrow> json \<Rightarrow> world \<Rightarrow> bool result" where
  "restoreApplicationData P data w =
     (if \<not> truthy data \<or> \<not> truthy_opt (get_prop data ''chats'')
      then (Inl InvalidDataStructure, w)
      else
        (case restore_field P data ''chats'' w of
           (Inl e, w1) \<Rightarrow> (Inl e, w1)
         | (Inr _, w1) \<Rightarrow>
             (case restore_field P data ''settings'' w1 of
                (Inl e, w2) \<Rightarrow> (Inl e, w2)
              | (Inr _, w2) \<Rightarrow>
                  (case restore_field P data ''favorites'' w2 of
                     (Inl e, w3) \<Rightarrow> (Inl e, w3)
                   | (Inr _, w3) \<Rightarrow>
                       (case restore_field P data ''folders'' w3 of
                          (Inl e, w4) \<Rightarrow> (Inl e, w4)
                        | (Inr _, w4) \<Rightarrow>
                            (Inr True,
                             w4\<lparr>localMetadata :=
                                  Some \<lparr>lm_data = data,
                                        lm_timestamp = epoch_ms (now w4)\<rparr>\<rparr>))))))"

definition getLocalMetadata :: "platform \<Rightarrow> world \<Rightarrow> local_metadata result" where
  "getLocalMetadata P w =
     (case localMetadata w of
        Some m \<Rightarrow> (Inr m, w)
      | None \<Rightarrow>
          (case getApplicationData P w of
             Inl e \<Rightarrow> (Inl e, w)
           | Inr appData \<Rightarrow>
               (let m = \<lparr>lm_data = appData, lm_timestamp = epoch_ms (now w)\<rparr>
                in (Inr m, w\<lparr>localMetadata := Some m\<rparr>))))"

text \<open>
  \<^verbatim>\<open>getCloudMetadata\<close>: a truthy cached value is returned; otherwise the metadata
  object is downloaded. A missing object (\<^verbatim>\<open>null\<close> from the download) makes it throw
  \<^verbatim>\<open>No cloud metadata found\<close>; invalid JSON makes \<^verbatim>\<open>JSON.parse\<close> throw.
\<close>

definition getCloudMetadata :: "platform \<Rightarrow> world \<Rightarrow> json result" where
  "getCloudMetadata P w =
     (if truthy (cloudMetadata w) then (Inr (cloudMetadata w), w)
      else
        (case downloadFromGCS ''typingmind-metadata.json'' w of
           (Inl e, w1) \<Rightarrow> (Inl e, w1)
         | (Inr None, w1) \<Rightarrow> (Inl NoCloudMetadataFound, w1)
         | (Inr (Some result), w1) \<Rightarrow>
             (case JSON_parse P (utf8_decode P (dl_data result)) of
                None \<Rightarrow> (Inl SyntaxError, w1)
              | Some j \<Rightarrow> (Inr j, w1\<lparr>cloudMetadata := j\<rparr>))))"

definition saveCloudMetadata :: "platform \<Rightarrow> json \<Rightarrow> world \<Rightarrow> bool result" where
  "saveCloudMetadata P data w =
     (case uploadToGCS ''typingmind-metadata.json''
             (utf8_encode P (JSON_stringify P data))
             [(''contentType'', ''application/json''),
              (''timestamp'', num_toString P (epoch_ms (now w)))] w of
        (Inl e, w1) \<Rightarrow> (Inl e, w1)
      | (Inr _, w1) \<Rightarrow> (Inr True, w1\<lparr>cloudMetadata := data\<rparr>))"

section \<open>The daily schedule\<close>

definition isDailySyncTime :: "world \<Rightarrow> bool" where
  "isDailySyncTime w =
     (let today = iso_date (now w) in
      if lastSyncDate (config w) = today then False
      else
        (let currentHour = local_hours (now w);
             currentMinute = local_minutes (now w)
         in currentHour > syncHour (config w) \<or>
            (currentHour = syncHour (config w) \<and> currentMinute \<ge> syncMinute (config w))))"

section \<open>Push and pull\<close>

text \<open>The metadata object as the JSON value that \<^verbatim>\<open>JSON.stringify\<close> sees.\<close>

definition lm_json :: "local_metadata \<Rightarrow> json" where
  "lm_json m = JObj [(''data'', lm_data m), (''timestamp'', JNum (lm_timestamp m))]"

definition backup_key :: "world \<Rightarrow> string" where
  "backup_key w =
     ''typingmind-backup-'' @ iso_date (now w) @
       (if encryptionEnabled (config w) then ''.dat'' else ''.json'')"

text \<open>
  \<^verbatim>\<open>pushToCloud(localData)\<close>. The argument is \<open>None\<close> when the caller passes nothing;
  \<^verbatim>\<open>performSync\<close> passes the local metadata object. Three parts of the body have a
  name of their own: \<^verbatim>\<open>localData || await getApplicationData()\<close>, the object
  \<^verbatim>\<open>dataToSync\<close>, and the choice between encrypting and encoding the JSON text.
\<close>

definition push_appData :: "platform \<Rightarrow> local_metadata option \<Rightarrow> world \<Rightarrow> error + json" where
  "push_appData P localData w =
     (case localData of
        Some m \<Rightarrow> Inr (lm_json m)
      | None \<Rightarrow> getApplicationData P w)"

definition dataToSync :: "json \<Rightarrow> world \<Rightarrow> json" where
  "dataToSync appData w = JObj [(''data'', appData), (''timestamp'', JNum (epoch_ms (now w)))]"

definition push_uploadData :: "platform \<Rightarrow> string \<Rightarrow> world \<Rightarrow> bytes result" where
  "push_uploadData P jsonData w =
     (if encryptionEnabled (config w)
      then (if encryptionKey (config w) = [] then (Inl EncryptionKeyMissing, w)
            else encryptData P (Text jsonData) (encryptionKey (config w)) w)
      else (Inr (utf8_encode P jsonData), w))"

definition pushToCloud :: "platform \<Rightarrow> local_metadata option \<Rightarrow> world \<Rightarrow> bool result" where
  "pushToCloud P localData w =
     (case push_appData P localData w of
        Inl e \<Rightarrow> (Inl e, w)
      | Inr appData \<Rightarrow>
          (case push_uploadData P (JSON_stringify P (dataToSync appData w)) w of
             (Inl e, w1) \<Rightarrow> (Inl e, w1)
           | (Inr uploadData, w1) \<Rightarrow>
               (case uploadToGCS (backup_key w1) uploadData
                       [(''contentType'',
                         if encryptionEnabled (config w1) then ''application/octet-stream''
                         else ''application/json''),
                        (''syncType'', ''regular''),
                        (''encrypted'', bool_toString (encryptionEnabled (config w1))),
                        (''timestamp'', num_toString P (epoch_ms (now w1)))] w1 of
                  (Inl e, w2) \<Rightarrow> (Inl e, w2)
                | (Inr _, w2) \<Rightarrow>
                    (case saveCloudMetadata P (dataToSync appData w) w2 of
                       (Inl e, w3) \<Rightarrow> (Inl e, w3)
                     | (Inr _, w3) \<Rightarrow> (Inr True, w3)))))"

text \<open>
  The comparator of the sort, \<^verbatim>\<open>bTime - aTime\<close> with
  \<^verbatim>\<open>metadata?.timestamp ? parseInt(metadata.timestamp) : 0\<close> for each time (\<open>None\<close> is
  \<^verbatim>\<open>NaN\<close>), and the test for an encrypted backup.
\<close>

definition file_time :: "platform \<Rightarrow> listing \<Rightarrow> int option" where
  "file_time P f =
     (case map_of (file_metadata f) ''timestamp'' of
        None \<Rightarrow> Some 0
      | Some s \<Rightarrow> (if s = [] then Some 0 else parseInt P s))"

definition newest_first :: "platform \<Rightarrow> listing \<Rightarrow> listing \<Rightarrow> int option" where
  "newest_first P a b =
     (case (file_time P a, file_time P b) of
        (Some aTime, Some bTime) \<Rightarrow> Some (bTime - aTime)
      | _ \<Rightarrow> None)"

text \<open>
  \<^verbatim>\<open>files.sort(...)\<close>. When every time is a number the comparator is consistent and
  the sort is the stable sort on the time, descending; when some time is \<^verbatim>\<open>NaN\<close>
  the order is what the platform's sort makes of the comparator.
\<close>

definition sorted_files :: "platform \<Rightarrow> listing list \<Rightarrow> listing list" where
  "sorted_files P files =
     (if list_all (\<lambda>f. file_time P f \<noteq> None) files
      then sort_key (\<lambda>f. - (case file_time P f of Some t \<Rightarrow> t | None \<Rightarrow> 0)) files
      else array_sort P (newest_first P) files)"

definition isEncrypted :: "listing \<Rightarrow> bool" where
  "isEncrypted f =
     (map_of (file_metadata f) ''encrypted'' = Some ''true'' \<or> suffix ''.dat'' (Key f))"

text \<open>The text of the downloaded backup, decrypted when the backup is encrypted.\<close>

definition backup_text :: "platform \<Rightarrow> listing \<Rightarrow> download \<Rightarrow> world \<Rightarrow> error + string" where
  "backup_text P latestBackup downloadResult w =
     (if isEncrypted latestBackup
      then (if encryptionKey (config w) = [] then Inl EncryptionKeyMissing
            else (case decryptData P (dl_data downloadResult) (encryptionKey (config w)) of
                    Inl e \<Rightarrow> Inl e
                  | Inr decryptedData \<Rightarrow> Inr (utf8_decode P decryptedData)))
      else Inr (utf8_decode P (dl_data downloadResult)))"

text \<open>
  \<^verbatim>\<open>pullFromCloud\<close>: the listed backups are sorted, the first of the sorted files is
  downloaded, decoded, checked and restored. Reading \<^verbatim>\<open>Key\<close> of a missing first
  element (which only a platform sort that loses elements could bring about) would
  throw a \<^verbatim>\<open>TypeError\<close>.
\<close>

definition pullFromCloud :: "platform \<Rightarrow> world \<Rightarrow> bool result" where
  "pullFromCloud P w =
     (case listGCSObjects ''typingmind-backup-'' w of
        (Inl e, w1) \<Rightarrow> (Inl e, w1)
      | (Inr files, w1) \<Rightarrow>
          if files = [] then (Inl NoBackupsFound, w1)
          else
            (case sorted_files P files of
               [] \<Rightarrow> (Inl TypeError, w1)
             | latestBackup # _ \<Rightarrow>
                 (case downloadFromGCS (Key latestBackup) w1 of
                   (Inl e, w2) \<Rightarrow> (Inl e, w2)
                 | (Inr None, w2) \<Rightarrow> (Inl DownloadFailed, w2)
                 | (Inr (Some downloadResult), w2) \<Rightarrow>
                     (case backup_text P latestBackup downloadResult w2 of
                        Inl e \<Rightarrow> (Inl e, w2)
                      | Inr jsonString \<Rightarrow>
                          (case JSON_parse P jsonString of
                             None \<Rightarrow> (Inl SyntaxError, w2)
                           | Some syncData \<Rightarrow>
                               if syncData = JNull then (Inl TypeError, w2)
                               else
                                 (case get_prop syncData ''data'' of
                                    None \<Rightarrow> (Inl InvalidBackupDataStructure, w2)
                                  | Some d \<Rightarrow>
                                      if \<not> truthy d then (Inl InvalidBackupDataStructure, w2)
                                      else
                                        (case restoreApplicationData P d w2 of
                                           (Inl e, w3) \<Rightarrow> (Inl e, w3)
                                         | (Inr _, w3) \<Rightarrow>
                                             (Inr True, w3\<lparr>cloudMetadata := syncData\<rparr>))))))))"

section \<open>Direction and the main entry\<close>

text \<open>
  \<^verbatim>\<open>x.data && x.data.chats ? Object.keys(x.data.chats).length : 0\<close>, given \<^verbatim>\<open>x.data\<close>.
\<close>

definition item_count :: "json option \<Rightarrow> int" where
  "item_count d =
     (case d of
        None \<Rightarrow> 0
      | Some dj \<Rightarrow>
          (if truthy dj
           then (case get_prop dj ''chats'' of
                   None \<Rightarrow> 0
                 | Some c \<Rightarrow> (if truthy c then object_keys_length c else 0))
           else 0))"

text \<open>
  \<^verbatim>\<open>determineAndPerformSync(localData)\<close>. In backup mode it pushes at once. A failure
  of \<^verbatim>\<open>getCloudMetadata\<close>, whatever it is, is caught and answered by a push. Reading
  \<^verbatim>\<open>timestamp\<close> of a \<^verbatim>\<open>null\<close> metadata value throws a \<^verbatim>\<open>TypeError\<close>.
\<close>

definition determineAndPerformSync ::
  "platform \<Rightarrow> local_metadata \<Rightarrow> world \<Rightarrow> bool result" where
  "determineAndPerformSync P localData w =
     (if syncMode (config w) = ''backup'' then pushToCloud P (Some localData) w
      else
        (case getCloudMetadata P w of
           (Inl e, w1) \<Rightarrow> pushToCloud P (Some localData) w1
         | (Inr cloudData, w1) \<Rightarrow>
             if cloudData = JNull then (Inl TypeError, w1)
             else
               (let cloudLastSync = or_zero (get_prop cloudData ''timestamp'');
                    localLastSync = or_zero (Some (JNum (lm_timestamp localData)));
                    cloudItemCount = item_count (get_prop cloudData ''data'');
                    localItemCount = item_count (Some (lm_data localData))
                in if js_gt P cloudLastSync localLastSync \<and> cloudItemCount > 0
                   then pullFromCloud P w1
                   else if js_gt P localLastSync cloudLastSync \<and> localItemCount > 0
                   then pushToCloud P (Some localData) w1
                   else if cloudItemCount > localItemCount
                   then pullFromCloud P w1
                   else pushToCloud P (Some localData) w1)))"

text \<open>
  The argument of \<^verbatim>\<open>performSync\<close>. \<open>None\<close> is \<^verbatim>\<open>null\<close>, the one value whose
  properties cannot be read. Any other value is given by what the code reads of it:
  \<open>force\<close> is the truthiness of \<^verbatim>\<open>options.force\<close>, \<open>direction\<close> is
  \<^verbatim>\<open>options.direction\<close> when that is a string. A call without argument has the default
  \<^verbatim>\<open>{}\<close>, which is \<open>no_options\<close>.
\<close>

record sync_options =
  force :: bool
  direction :: "string option"

definition no_options :: "sync_options option" where
  "no_options = Some \<lparr>force = False, direction = None\<rparr>"

text \<open>\<^verbatim>\<open>!options.force\<close> and \<^verbatim>\<open>options.direction || null\<close>.\<close>

definition not_forced :: "sync_options option \<Rightarrow> error + bool" where
  "not_forced options =
     (case options of None \<Rightarrow> Inl TypeError | Some opts \<Rightarrow> Inr (\<not> force opts))"

definition forceDirection :: "sync_options option \<Rightarrow> error + string option" where
  "forceDirection options =
     (case options of
        None \<Rightarrow> Inl TypeError
      | Some opts \<Rightarrow>
          (case direction opts of
             None \<Rightarrow> Inr None
           | Some s \<Rightarrow> (if s = [] then Inr None else Inr (Some s))))"

text \<open>The \<^verbatim>\<open>try\<close> block of \<^verbatim>\<open>performSync\<close>.\<close>

definition performSync_try ::
  "platform \<Rightarrow> sync_options option \<Rightarrow> world \<Rightarrow> bool result" where
  "performSync_try P options w =
     (case getLocalMetadata P w of
        (Inl e, w1) \<Rightarrow> (Inl e, w1)
      | (Inr localData, w1) \<Rightarrow>
          (case forceDirection options of
             Inl e \<Rightarrow> (Inl e, w1)
           | Inr dir \<Rightarrow>
               (case (if dir = Some ''push'' then pushToCloud P (Some localData) w1
                      else if dir = Some ''pull'' then pullFromCloud P w1
                      else determineAndPerformSync P localData w1) of
                  (Inl e, w2) \<Rightarrow> (Inl e, w2)
                | (Inr _, w2) \<Rightarrow>
                    (Inr True,
                     saveConfiguration P
                       (w2\<lparr>config := (config w2)\<lparr>lastSyncTime := epoch_ms (now w2)\<rparr>\<rparr>)))))"

text \<open>
  \<^verbatim>\<open>performSync(options)\<close>: three guards that return \<^verbatim>\<open>false\<close>, then the \<^verbatim>\<open>try\<close>
  block between setting and (in \<^verbatim>\<open>finally\<close>) clearing \<^verbatim>\<open>isRunning\<close>; the \<^verbatim>\<open>catch\<close>
  returns \<^verbatim>\<open>false\<close>. The third guard reads \<^verbatim>\<open>options.force\<close>, and only when the
  mode is \<^verbatim>\<open>disabled\<close>; it stands in front of the \<^verbatim>\<open>try\<close>, so what it throws leaves
  the function.
\<close>

definition performSync ::
  "platform \<Rightarrow> sync_options option \<Rightarrow> world \<Rightarrow> bool result" where
  "performSync P options w =
     (if isRunning w then (Inr False, w)
      else if \<not> isGcsConfigured (config w) then (Inr False, w)
      else
        (case (if syncMode (config w) = ''disabled'' then not_forced options else Inr False) of
           Inl e \<Rightarrow> (Inl e, w)
         | Inr stop \<Rightarrow>
             if stop then (Inr False, w)
             else
               (case performSync_try P options (w\<lparr>isRunning := True\<rparr>) of
                  (Inl e, w1) \<Rightarrow> (Inr False, w1\<lparr>isRunning := False\<rparr>)
                | (Inr r, w1) \<Rightarrow> (Inr r, w1\<lparr>isRunning := False\<rparr>))))"

text \<open>
  The callback that \<^verbatim>\<open>startSyncInterval\<close> installs, run once a minute:
  \<^verbatim>\<open>await performSync()\<close>, then the day stamp and \<^verbatim>\<open>saveConfiguration()\<close>; the
  \<^verbatim>\<open>catch\<close> around them only logs.
\<close>

definition syncInterval_tick :: "platform \<Rightarrow> world \<Rightarrow> world" where
  "syncInterval_tick P w =
     (if \<not> isRunning w \<and> isDailySyncTime w
      then (case performSync P no_options w of
              (Inl e, w1) \<Rightarrow> w1
            | (Inr _, w1) \<Rightarrow>
                saveConfiguration P
                  (w1\<lparr>config := (config w1)\<lparr>lastSyncDate := iso_date (now w1)\<rparr>\<rparr>))
      else w)"

section \<open>The direction rule in the words of the specification\<close>

datatype sync_direction = Push | Pull

record side =
  side_timestamp :: int
  side_count :: int

text \<open>
  \<open>decide_spec\<close> is the rule as the specification words it, on the timestamp and the
  record count of each side, with \<open>None\<close> for absent cloud metadata.
\<close>

definition decide_spec :: "side \<Rightarrow> side option \<Rightarrow> sync_direction" where
  "decide_spec local cloud_opt =
     (case cloud_opt of
        None \<Rightarrow> Push
      | Some cloud \<Rightarrow>
          if side_timestamp cloud > side_timestamp local \<and> side_count cloud > 0 then Pull
          else if side_timestamp local > side_timestamp cloud \<and> side_count local > 0 then Push
          else if side_count cloud > side_count local then Pull
          else Push)"

text \<open>What the code reads as timestamp and count on each side.\<close>

definition local_side :: "local_metadata \<Rightarrow> side" where
  "local_side m =
     \<lparr>side_timestamp = lm_timestamp m, side_count = item_count (Some (lm_data m))\<rparr>"

definition cloud_timestamp :: "json \<Rightarrow> int" where
  "cloud_timestamp cloudData =
     (case get_prop cloudData ''timestamp'' of Some (JNum t) \<Rightarrow> t | _ \<Rightarrow> 0)"

definition cloud_side :: "json \<Rightarrow> side" where
  "cloud_side cloudData =
     \<lparr>side_timestamp = cloud_timestamp cloudData,
      side_count = item_count (get_prop cloudData ''data'')\<rparr>"

text \<open>The timestamp of the cloud metadata is an integer or missing.\<close>

definition integer_timestamp :: "json \<Rightarrow> bool" where
  "integer_timestamp cloudData =
     (case get_prop cloudData ''timestamp'' of
        None \<Rightarrow> True
      | Some (JNum t) \<Rightarrow> True
      | Some _ \<Rightarrow> False)"

section \<open>A small platform and worlds for concrete runs\<close>

text \<open>
  A stand-in platform on which the operations can be run: text is encoded one
  character per byte, the ``cipher'' appends a sixteen-byte tag made from the first
  key byte, the header codec keeps four fields in one byte each, and the JSON
  functions know a handful of texts.
\<close>

definition toy_encode :: "string \<Rightarrow> bytes" where
  "toy_encode s = map (\<lambda>c. of_nat (of_char c)) s"

definition toy_decode :: "bytes \<Rightarrow> string" where
  "toy_decode bs = map (\<lambda>b. char_of (unat b)) bs"

definition toy_tag :: "bytes \<Rightarrow> bytes" where
  "toy_tag key = replicate 16 (case key of [] \<Rightarrow> 0 | k # _ \<Rightarrow> k)"

definition toy_seal :: "bytes \<Rightarrow> bytes \<Rightarrow> bytes \<Rightarrow> bytes option" where
  "toy_seal key iv plain = Some (plain @ toy_tag key)"

definition toy_unseal :: "bytes \<Rightarrow> bytes \<Rightarrow> bytes \<Rightarrow> bytes option" where
  "toy_unseal key iv sealed =
     (if length sealed \<ge> 16 \<and> drop (length sealed - 16) sealed = toy_tag key
      then Some (take (length sealed - 16) sealed) else None)"

definition toy_encode_header :: "header \<Rightarrow> bytes" where
  "toy_encode_header h =
     [of_int (version h), of_int (saltSize h), of_int (ivSize h), of_int (hdr_timestamp h)]"

definition toy_decode_header :: "bytes \<Rightarrow> header option" where
  "toy_decode_header bs =
     (case bs of
        [v, s, i, t] \<Rightarrow>
          Some \<lparr>version = uint v, algorithm = ''AES-GCM'', keyDerivation = ''PBKDF2'',
                iterations = 100000, saltSize = uint s, ivSize = uint i,
                hdr_timestamp = uint t\<rparr>
      | _ \<Rightarrow> None)"

definition toy_parse :: "string \<Rightarrow> json option" where
  "toy_parse s =
     (if s = ''{}'' then Some (JObj [])
      else if s = ''[]'' then Some (JArr [])
      else if s = ''null'' then Some JNull
      else if s = ''{data:{settings:{}}}'' then
        Some (JObj [(''data'', JObj [(''settings'', JObj [])])])
      else if s = ''{data:{chats:{a:1}}}'' then
        Some (JObj [(''data'', JObj [(''chats'', JObj [(''a'', JNum 1)])])])
      else if s = ''{data:{chats:{a:1},settings:{}}}'' then
        Some (JObj [(''data'',
                JObj [(''chats'', JObj [(''a'', JNum 1)]), (''settings'', JObj [])])])
      else None)"

definition toy_stringify :: "json \<Rightarrow> string" where
  "toy_stringify j =
     (case j of
        JObj [] \<Rightarrow> ''{}''
      | JArr [] \<Rightarrow> ''[]''
      | JNull \<Rightarrow> ''null''
      | JObj [(k, JNum n)] \<Rightarrow> ''{'' @ k @ '':n}''
      | _ \<Rightarrow> ''{...}'')"

text \<open>An insertion sort that keeps the order of files the comparator does not tell apart.\<close>

fun toy_insert ::
  "(listing \<Rightarrow> listing \<Rightarrow> int option) \<Rightarrow> listing \<Rightarrow> listing list \<Rightarrow> listing list" where
  "toy_insert cmp x [] = [x]"
| "toy_insert cmp x (y # ys) =
     (if (case cmp x y of Some c \<Rightarrow> c \<le> 0 | None \<Rightarrow> True) then x # y # ys
      else y # toy_insert cmp x ys)"

definition toy_sort ::
  "(listing \<Rightarrow> listing \<Rightarrow> int option) \<Rightarrow> listing list \<Rightarrow> listing list" where
  "toy_sort cmp xs = foldr (toy_insert cmp) xs []"

definition toy_platform :: platform where
  "toy_platform =
     \<lparr>utf8_encode = toy_encode, utf8_decode = toy_decode,
      JSON_stringify = toy_stringify, JSON_parse = toy_parse,
      num_toString = (\<lambda>n. replicate (nat n) CHR ''1''),
      parseInt = (\<lambda>s. Some (int (length s))),
      array_sort = toy_sort,
      coerce = (\<lambda>j. None),
      encode_header = toy_encode_header, decode_header = toy_decode_header,
      pbkdf2 = (\<lambda>pw salt iters. if iters > 0 then Some (pw @ salt) else None),
      aes_gcm_encrypt = toy_seal, aes_gcm_decrypt = toy_unseal,
      setItem_accepted = (\<lambda>k v. True)\<rparr>"

definition toy_config :: config where
  "toy_config =
     \<lparr>syncMode = ''sync'', syncHour = 9, syncMinute = 0,
      projectId = ''p'', bucketName = ''b'', keyFilename = ''k'',
      encryptionKey = [], encryptionEnabled = False,
      lastSyncTime = 0, lastSyncDate = ''2024-01-01''\<rparr>"

definition toy_world :: world where
  "toy_world =
     \<lparr>config = toy_config, isRunning = False, localMetadata = None,
      cloudMetadata = JNull, localStorage = Map.empty, bucket = [],
      net = [], entropy = (\<lambda>i. of_nat i),
      now = \<lparr>epoch_ms = 7, iso_date = ''2024-01-02'', local_hours = 9,
             local_minutes = 0\<rparr>\<rparr>"

text \<open>
  A stored backup with a given text, and a world whose bucket holds one such backup and
  whose local storage holds a chat list and settings.
\<close>

definition stored_backup :: "string \<Rightarrow> gcs_object" where
  "stored_backup text =
     \<lparr>obj_data = toy_encode text,
      obj_metadata = [(''encrypted'', ''false''), (''timestamp'', ''1111111'')],
      obj_contentType = ''application/json''\<rparr>"

definition pull_world :: "string \<Rightarrow> world" where
  "pull_world text =
     toy_world
       \<lparr>bucket := [(''typingmind-backup-2024-01-01.json'', stored_backup text)],
        localStorage := [''chats'' \<mapsto> ''{}'', ''settings'' \<mapsto> ''[]'']\<rparr>"

text \<open>
  The same platform with a local storage that refuses the entry \<^verbatim>\<open>settings\<close>, and
  the sample world with the mode \<^verbatim>\<open>disabled\<close>.
\<close>

definition full_storage_platform :: platform where
  "full_storage_platform = toy_platform\<lparr>setItem_accepted := (\<lambda>k v. k \<noteq> ''settings'')\<rparr>"

definition disabled_world :: world where
  "disabled_world = toy_world\<lparr>config := toy_config\<lparr>syncMode := ''disabled''\<rparr>\<rparr>"

text \<open>
  A world in which the next two requests to the service are rejected, and one in which
  the metadata object exists but holds no JSON text.
\<close>

definition offline_world :: world where
  "offline_world = toy_world\<lparr>net := [True, True]\<rparr>"

definition bad_metadata_world :: world where
  "bad_metadata_world =
     toy_world\<lparr>bucket := [(''typingmind-metadata.json'', stored_backup ''no json'')]\<rparr>"

text \<open>
  Metadata values with a given timestamp and a given number of chats, for the local
  side and for the cloud side, and a world that has the cloud value cached.
\<close>

definition chats_json :: "nat \<Rightarrow> json" where
  "chats_json n = JObj [(''chats'', JArr (replicate n JNull))]"

definition cloud_json :: "int \<Rightarrow> nat \<Rightarrow> json" where
  "cloud_json t n = JObj [(''data'', chats_json n), (''timestamp'', JNum t)]"

definition cached_world :: "json \<Rightarrow> world" where
  "cached_world j = toy_world\<lparr>cloudMetadata := j\<rparr>"

definition local_md :: "int \<Rightarrow> nat \<Rightarrow> local_metadata" where
  "local_md t n = \<lparr>lm_data = chats_json n, lm_timestamp = t\<rparr>"

subsection \<open>The parts of a fresh envelope\<close>

text \<open>
  The salt and the IV that \<^verbatim>\<open>encryptData\<close> draws in a world, the header bytes it
  writes there, and the part of its result in front of the ciphertext.
\<close>

definition fresh_salt :: "world \<Rightarrow> bytes" where
  "fresh_salt w = fst (getRandomBytes 16 w)"

definition fresh_iv :: "world \<Rightarrow> bytes" where
  "fresh_iv w = fst (getRandomBytes 12 (snd (getRandomBytes 16 w)))"

definition fresh_header :: "platform \<Rightarrow> world \<Rightarrow> bytes" where
  "fresh_header P w = encode_header P (make_header 16 12 (epoch_ms (now w)))"

definition envelope_front :: "platform \<Rightarrow> world \<Rightarrow> bytes" where
  "envelope_front P w =
     uint32_bytes (length (fresh_header P w)) @ fresh_header P w @ fresh_salt w @ fresh_iv w"

subsection \<open>Two later readings of the clock\<close>

text \<open>One on the same day as in the sample world, and one on the next day.\<close>

definition later_same_day :: instant where
  "later_same_day =
     \<lparr>epoch_ms = 8, iso_date = ''2024-01-02'', local_hours = 9, local_minutes = 1\<rparr>"

definition next_day :: instant where
  "next_day =
     \<lparr>epoch_ms = 9, iso_date = ''2024-01-03'', local_hours = 9, local_minutes = 0\<rparr>"

section \<open>Verified properties\<close>

subsection \<open>What the operations leave alone\<close>

text \<open>
  Requests to the service change nothing but the list of coming outcomes; a restored
  field changes one entry of local storage at most.
\<close>

lemma request_net: "request w = (r, w') \<Longrightarrow> \<exists>ns. w' = w\<lparr>net := ns\<rparr>"
  by (auto simp: request_def split: list.splits intro: exI [of _ "net w"])

lemma list_entries_net: "list_entries fs w = (es, w') \<Longrightarrow> \<exists>ns. w' = w\<lparr>net := ns\<rparr>"
proof (induction fs arbitrary: w es w')
  case Nil
  then show ?case by (auto intro: exI [of _ "net w"])
next
  case (Cons f fs)
  obtain k obj where f: "f = (k, obj)" by (cases f)
  obtain r w1 where r: "request w = (r, w1)" by (cases "request w")
  obtain es2 w2 where l: "list_entries fs w1 = (es2, w2)" by (cases "list_entries fs w1")
  from Cons.prems f r l have w': "w' = w2" by simp
  from request_net [OF r] obtain n1 where "w1 = w\<lparr>net := n1\<rparr>" by blast
  moreover from Cons.IH [OF l] obtain n2 where "w2 = w1\<lparr>net := n2\<rparr>" by blast
  ultimately have "w2 = w\<lparr>net := n2\<rparr>" by simp
  with w' show ?case by blast
qed

lemma listGCSObjects_net: "listGCSObjects pfx w = (r, w') \<Longrightarrow> \<exists>ns. w' = w\<lparr>net := ns\<rparr>"
proof -
  assume a: "listGCSObjects pfx w = (r, w')"
  show ?thesis
  proof (cases "initializeGCSClient w")
    case (Inl e)
    with a show ?thesis by (auto simp: listGCSObjects_def intro: exI [of _ "net w"])
  next
    case (Inr u)
    obtain rj w1 where rq: "request w = (rj, w1)" by (cases "request w")
    from request_net [OF rq] obtain n1 where w1: "w1 = w\<lparr>net := n1\<rparr>" by blast
    show ?thesis
    proof (cases rj)
      case True
      with a Inr rq w1 show ?thesis by (auto simp: listGCSObjects_def)
    next
      case False
      obtain es w2 where le: "list_entries (filter (\<lambda>(k, obj). prefix pfx k) (bucket w1)) w1 = (es, w2)"
        by (cases "list_entries (filter (\<lambda>(k, obj). prefix pfx k) (bucket w1)) w1")
      from list_entries_net [OF le] obtain n2 where "w2 = w1\<lparr>net := n2\<rparr>" by blast
      with w1 have "w2 = w\<lparr>net := n2\<rparr>" by simp
      moreover from a Inr rq False le have "w' = w2" by (simp add: listGCSObjects_def)
      ultimately show ?thesis by blast
    qed
  qed
qed

lemma downloadFromGCS_net: "downloadFromGCS key w = (r, w') \<Longrightarrow> \<exists>ns. w' = w\<lparr>net := ns\<rparr>"
proof -
  assume a: "downloadFromGCS key w = (r, w')"
  obtain rj w1 where rq: "request w = (rj, w1)" by (cases "request w")
  from request_net [OF rq] obtain n1 where w1: "w1 = w\<lparr>net := n1\<rparr>" by blast
  obtain rj2 w2 where rq2: "request w1 = (rj2, w2)" by (cases "request w1")
  from request_net [OF rq2] obtain n2 where "w2 = w1\<lparr>net := n2\<rparr>" by blast
  with w1 have w2: "w2 = w\<lparr>net := n2\<rparr>" by simp
  from a rq rq2 have "w' = w \<or> w' = w1 \<or> w' = w2"
    by (auto simp: downloadFromGCS_def split: sum.splits bool.splits option.splits)
  with w1 w2 show ?thesis by (metis world.surjective world.update_convs(7))
qed


lemma setItem_cases:
  "setItem P k v w = (Inl QuotaExceeded, w) \<or>
   setItem P k v w = (Inr (), w\<lparr>localStorage := (localStorage w)(k \<mapsto> v)\<rparr>)"
  by (simp add: setItem_def)

lemma restore_field_cases:
  "restore_field P data k w = (r, w') \<Longrightarrow>
     (w' = w \<and> (r = Inl QuotaExceeded \<or> r = Inr () \<and> \<not> truthy_opt (get_prop data k))) \<or>
     (\<exists>v. get_prop data k = Some v \<and> truthy v \<and> r = Inr () \<and>
          w' = w\<lparr>localStorage := (localStorage w)(k \<mapsto> JSON_stringify P v)\<rparr>)"
  by (auto simp: restore_field_def setItem_def truthy_opt_def split: option.splits if_splits)

lemma restore_field_frame:
  "restore_field P data k w = (r, w') \<Longrightarrow>
     (\<exists>ls. w' = w\<lparr>localStorage := ls\<rparr>) \<and>
     (\<forall>k'. k' \<noteq> k \<longrightarrow> localStorage w' k' = localStorage w k') \<and>
     (get_prop data k = None \<longrightarrow> w' = w) \<and>
     (r \<noteq> Inr () \<longrightarrow> r = Inl QuotaExceeded \<and> w' = w)"
  by (drule restore_field_cases) (auto intro: exI [of _ "localStorage w"])

lemma restore_field_written:
  "restore_field P data k w = (Inr (), w') \<Longrightarrow> get_prop data k = Some v \<Longrightarrow> truthy v \<Longrightarrow>
     localStorage w' k = Some (JSON_stringify P v)"
  by (drule restore_field_cases) (auto simp: truthy_opt_def)

lemma restoreApplicationData_invalid:
  "\<not> truthy data \<or> \<not> truthy_opt (get_prop data ''chats'') \<Longrightarrow>
     restoreApplicationData P data w = (Inl InvalidDataStructure, w)"
  by (simp add: restoreApplicationData_def)


lemma restore_field_result:
  "restore_field P data k w = (r, w') \<Longrightarrow> r = Inr () \<or> r = Inl QuotaExceeded \<and> w' = w"
  by (drule restore_field_cases) auto

lemma restoreApplicationData_error:
  assumes "restoreApplicationData P data w = (Inl e, w')"
  shows "e = InvalidDataStructure \<and> w' = w \<or> e = QuotaExceeded"
proof (cases "\<not> truthy data \<or> \<not> truthy_opt (get_prop data ''chats'')")
  case True
  with assms show ?thesis by (simp add: restoreApplicationData_def)
next
  case False
  obtain r1 w1 where f1: "restore_field P data ''chats'' w = (r1, w1)"
    by (cases "restore_field P data ''chats'' w")
  obtain r2 w2 where f2: "restore_field P data ''settings'' w1 = (r2, w2)"
    by (cases "restore_field P data ''settings'' w1")
  obtain r3 w3 where f3: "restore_field P data ''favorites'' w2 = (r3, w3)"
    by (cases "restore_field P data ''favorites'' w2")
  obtain r4 w4 where f4: "restore_field P data ''folders'' w3 = (r4, w4)"
    by (cases "restore_field P data ''folders'' w3")
  have r: "r1 = Inr () \<or> r1 = Inl QuotaExceeded" "r2 = Inr () \<or> r2 = Inl QuotaExceeded"
    "r3 = Inr () \<or> r3 = Inl QuotaExceeded" "r4 = Inr () \<or> r4 = Inl QuotaExceeded"
    using restore_field_result [OF f1] restore_field_result [OF f2]
      restore_field_result [OF f3] restore_field_result [OF f4] by blast+
  from assms False f1 f2 f3 f4 r have "e = QuotaExceeded"
    by (auto simp: restoreApplicationData_def)
  then show ?thesis by simp
qed

lemma restore_field_other:
  "restore_field P data k w = (r, w') \<Longrightarrow> k' \<noteq> k \<or> get_prop data k' = None \<Longrightarrow>
     localStorage w' k' = localStorage w k'"
  by (drule restore_field_cases) auto

lemma restoreApplicationData_steps:
  assumes run: "restoreApplicationData P data w = (r, w')"
    and valid: "truthy data" "truthy_opt (get_prop data ''chats'')"
    and f1: "restore_field P data ''chats'' w = (r1, w1)"
    and f2: "restore_field P data ''settings'' w1 = (r2, w2)"
    and f3: "restore_field P data ''favorites'' w2 = (r3, w3)"
    and f4: "restore_field P data ''folders'' w3 = (r4, w4)"
  shows "(r = Inl QuotaExceeded \<and> (w' = w1 \<or> w' = w2 \<or> w' = w3 \<or> w' = w4)) \<or>
         (r = Inr True \<and> r1 = Inr () \<and> r2 = Inr () \<and> r3 = Inr () \<and> r4 = Inr () \<and>
          w' = w4\<lparr>localMetadata :=
                   Some \<lparr>lm_data = data, lm_timestamp = epoch_ms (now w4)\<rparr>\<rparr>)"
proof -
  have r: "r1 = Inr () \<or> r1 = Inl QuotaExceeded" "r2 = Inr () \<or> r2 = Inl QuotaExceeded"
    "r3 = Inr () \<or> r3 = Inl QuotaExceeded" "r4 = Inr () \<or> r4 = Inl QuotaExceeded"
    using restore_field_result [OF f1] restore_field_result [OF f2]
      restore_field_result [OF f3] restore_field_result [OF f4] by blast+
  from run valid f1 f2 f3 f4 r show ?thesis
    by (auto simp: restoreApplicationData_def)
qed

lemma toy_decode_encode: "toy_decode (toy_encode s) = s"
  by (induction s) (simp_all add: toy_decode_def toy_encode_def unat_of_nat)

subsection \<open>Restoring application data\<close>

text \<open>
  Claim C10. \<^verbatim>\<open>restoreApplicationData\<close> writes only entries for fields that the
  payload has: an entry whose field is absent from the payload (and any entry other than
  the four dataset keys) keeps its value, whatever the outcome; when \<^verbatim>\<open>chats\<close> is absent
  the call throws \<^verbatim>\<open>Invalid data structure\<close> and the world is as before; and after a
  successful call each dataset field that is present and truthy is stored as its
  \<^verbatim>\<open>JSON.stringify\<close> text.
\<close>

theorem restoreApplicationData_frame:
  assumes run: "restoreApplicationData P data w = (r, w')"
  shows "(\<forall>k. k \<notin> {''chats'', ''settings'', ''favorites'', ''folders''} \<or> get_prop data k = None
            \<longrightarrow> localStorage w' k = localStorage w k) \<and>
         (get_prop data ''chats'' = None \<longrightarrow> r = Inl InvalidDataStructure \<and> w' = w) \<and>
         (r = Inr True \<longrightarrow>
            (\<forall>k \<in> {''chats'', ''settings'', ''favorites'', ''folders''}. \<forall>v.
               get_prop data k = Some v \<and> truthy v \<longrightarrow>
               localStorage w' k = Some (JSON_stringify P v)))"
proof (cases "\<not> truthy data \<or> \<not> truthy_opt (get_prop data ''chats'')")
  case True
  with run have "r = Inl InvalidDataStructure" "w' = w"
    by (simp_all add: restoreApplicationData_def)
  then show ?thesis by simp
next
  case False
  then have valid: "truthy data" "truthy_opt (get_prop data ''chats'')" by simp_all
  from valid(2) have chats: "get_prop data ''chats'' \<noteq> None" by (auto simp: truthy_opt_def split: option.splits)
  obtain r1 w1 where f1: "restore_field P data ''chats'' w = (r1, w1)"
    by (cases "restore_field P data ''chats'' w")
  obtain r2 w2 where f2: "restore_field P data ''settings'' w1 = (r2, w2)"
    by (cases "restore_field P data ''settings'' w1")
  obtain r3 w3 where f3: "restore_field P data ''favorites'' w2 = (r3, w3)"
    by (cases "restore_field P data ''favorites'' w2")
  obtain r4 w4 where f4: "restore_field P data ''folders'' w3 = (r4, w4)"
    by (cases "restore_field P data ''folders'' w3")
  note steps = restoreApplicationData_steps [OF run valid f1 f2 f3 f4]
  have unchanged: "localStorage w1 k = localStorage w k \<and> localStorage w2 k = localStorage w k \<and>
      localStorage w3 k = localStorage w k \<and> localStorage w4 k = localStorage w k"
    if "k \<notin> {''chats'', ''settings'', ''favorites'', ''folders''} \<or> get_prop data k = None" for k
  proof -
    from that have o: "k \<noteq> ''chats'' \<or> get_prop data k = None"
      "k \<noteq> ''settings'' \<or> get_prop data k = None"
      "k \<noteq> ''favorites'' \<or> get_prop data k = None"
      "k \<noteq> ''folders'' \<or> get_prop data k = None" by auto
    show ?thesis
      using restore_field_other [OF f1 o(1)] restore_field_other [OF f2 o(2)]
        restore_field_other [OF f3 o(3)] restore_field_other [OF f4 o(4)] by simp
  qed
  have part1: "\<forall>k. k \<notin> {''chats'', ''settings'', ''favorites'', ''folders''} \<or> get_prop data k = None
            \<longrightarrow> localStorage w' k = localStorage w k"
  proof (intro allI impI)
    fix k
    assume "k \<notin> {''chats'', ''settings'', ''favorites'', ''folders''} \<or> get_prop data k = None"
    from unchanged [OF this] steps show "localStorage w' k = localStorage w k" by auto
  qed
  have part3: "\<forall>k \<in> {''chats'', ''settings'', ''favorites'', ''folders''}. \<forall>v.
               get_prop data k = Some v \<and> truthy v \<longrightarrow>
               localStorage w' k = Some (JSON_stringify P v)" if ok: "r = Inr True"
  proof -
    from steps ok have rs: "r1 = Inr ()" "r2 = Inr ()" "r3 = Inr ()" "r4 = Inr ()"
      and w': "localStorage w' = localStorage w4" by auto
    have "localStorage w4 k = Some (JSON_stringify P v)"
      if k: "k \<in> {''chats'', ''settings'', ''favorites'', ''folders''}"
        and v: "get_prop data k = Some v" "truthy v" for k v
    proof -
      from k consider "k = ''chats''" | "k = ''settings''" | "k = ''favorites''" | "k = ''folders''"
        by auto
      then show ?thesis
      proof cases
        case 1
        with restore_field_written [OF f1 [unfolded rs] _ v(2)] v(1)
        have "localStorage w1 k = Some (JSON_stringify P v)" by simp
        with 1 restore_field_other [OF f2, of k] restore_field_other [OF f3, of k]
          restore_field_other [OF f4, of k] show ?thesis by simp
      next
        case 2
        with restore_field_written [OF f2 [unfolded rs] _ v(2)] v(1)
        have "localStorage w2 k = Some (JSON_stringify P v)" by simp
        with 2 restore_field_other [OF f3, of k] restore_field_other [OF f4, of k]
        show ?thesis by simp
      next
        case 3
        with restore_field_written [OF f3 [unfolded rs] _ v(2)] v(1)
        have "localStorage w3 k = Some (JSON_stringify P v)" by simp
        with 3 restore_field_other [OF f4, of k] show ?thesis by simp
      next
        case 4
        with restore_field_written [OF f4 [unfolded rs] _ v(2)] v(1)
        show ?thesis by simp
      qed
    qed
    with w' show ?thesis by simp
  qed
  from part1 part3 chats show ?thesis by blast
qed

theorem restoreApplicationData_frame_witness:
  "localStorage (snd (restoreApplicationData toy_platform
       (JObj [(''chats'', JObj [(''a'', JNum 1)])]) (pull_world ''{}''))) ''settings''
     = Some ''[]'' \<and>
   localStorage (snd (restoreApplicationData toy_platform
       (JObj [(''chats'', JObj [(''a'', JNum 1)])]) (pull_world ''{}''))) ''chats''
     = Some ''{a:n}'' \<and>
   restoreApplicationData toy_platform (JObj [(''settings'', JObj [])]) (pull_world ''{}'')
     = (Inl InvalidDataStructure, pull_world ''{}'')"
proof -
  let ?d = "JObj [(''chats'', JObj [(''a'', JNum 1)])]"
  let ?run = "restoreApplicationData toy_platform ?d (pull_world ''{}'')"
  have ok: "fst ?run = Inr True" by code_simp
  have run: "?run = (Inr True, snd ?run)" using ok by (cases ?run) simp
  note t = restoreApplicationData_frame [OF run]
  have s: "localStorage (snd ?run) ''settings'' = localStorage (pull_world ''{}'') ''settings''"
    using t by simp
  have c: "localStorage (snd ?run) ''chats'' = Some (JSON_stringify toy_platform (JObj [(''a'', JNum 1)]))"
    using t by simp
  let ?e = "JObj [(''settings'', JObj [])]"
  let ?bad = "restoreApplicationData toy_platform ?e (pull_world ''{}'')"
  have bad: "?bad = (fst ?bad, snd ?bad)" by simp
  have b: "fst ?bad = Inl InvalidDataStructure \<and> snd ?bad = pull_world ''{}''"
    using restoreApplicationData_frame [OF bad] by simp
  from s c b show ?thesis
    by (simp add: pull_world_def toy_platform_def toy_stringify_def prod_eq_iff)
qed

subsection \<open>A failed pull\<close>

lemma pullFromCloud_error_frame:
  assumes "pullFromCloud P w = (Inl e, w')" and "e \<noteq> QuotaExceeded"
  shows "localStorage w' = localStorage w"
proof -
  obtain r1 w1 where l: "listGCSObjects ''typingmind-backup-'' w = (r1, w1)"
    by (cases "listGCSObjects ''typingmind-backup-'' w")
  from listGCSObjects_net [OF l] have ls1: "localStorage w1 = localStorage w" by auto
  show ?thesis
  proof (cases r1)
    case (Inl e1)
    with assms l have "w' = w1" by (simp add: pullFromCloud_def)
    with ls1 show ?thesis by simp
  next
    case (Inr files)
    show ?thesis
    proof (cases "files = []")
      case True
      with assms l Inr have "w' = w1" by (simp add: pullFromCloud_def)
      with ls1 show ?thesis by simp
    next
      case False
      show ?thesis
      proof (cases "sorted_files P files")
        case Nil
        with assms l Inr False have "w' = w1" by (simp add: pullFromCloud_def)
        with ls1 show ?thesis by simp
      next
        case (Cons latest others)
        obtain r2 w2 where d: "downloadFromGCS (Key latest) w1 = (r2, w2)"
          by (cases "downloadFromGCS (Key latest) w1")
        from downloadFromGCS_net [OF d] ls1 have ls2: "localStorage w2 = localStorage w" by auto
        have "w' = w2 \<or> (\<exists>dat. restoreApplicationData P dat w2 = (Inl e, w'))"
          using assms(1) l Inr False Cons d
          by (auto simp: pullFromCloud_def
              split: sum.splits option.splits if_splits prod.splits)
        then show ?thesis
        proof
          assume "w' = w2"
          with ls2 show ?thesis by simp
        next
          assume "\<exists>dat. restoreApplicationData P dat w2 = (Inl e, w')"
          then obtain dat where "restoreApplicationData P dat w2 = (Inl e, w')" by blast
          from restoreApplicationData_error [OF this] assms(2) have "w' = w2" by simp
          with ls2 show ?thesis by simp
        qed
      qed
    qed
  qed
qed

lemma pullFromCloud_writes_validated:
  assumes run: "pullFromCloud P w = (r, w')" and changed: "localStorage w' \<noteq> localStorage w"
  shows "\<exists>files w1 latest others dl w2 jsonString syncData d.
           listGCSObjects ''typingmind-backup-'' w = (Inr files, w1) \<and> files \<noteq> [] \<and>
           sorted_files P files = latest # others \<and>
           downloadFromGCS (Key latest) w1 = (Inr (Some dl), w2) \<and>
           backup_text P latest dl w2 = Inr jsonString \<and>
           JSON_parse P jsonString = Some syncData \<and>
           get_prop syncData ''data'' = Some d \<and> truthy d \<and>
           truthy_opt (get_prop d ''chats'')"
proof -
  obtain r1 w1 where l: "listGCSObjects ''typingmind-backup-'' w = (r1, w1)"
    by (cases "listGCSObjects ''typingmind-backup-'' w")
  from listGCSObjects_net [OF l] have ls1: "localStorage w1 = localStorage w" by auto
  have n1: "w' \<noteq> w1" using changed ls1 by auto
  from run l n1 obtain files where r1: "r1 = Inr files"
    by (cases r1) (simp_all add: pullFromCloud_def)
  from run l r1 n1 have ne: "files \<noteq> []"
    by (cases "files = []") (simp_all add: pullFromCloud_def)
  from run l r1 ne n1 obtain latest others where
    srt: "sorted_files P files = latest # others"
    by (cases "sorted_files P files") (simp_all add: pullFromCloud_def)
  obtain r2 w2 where d: "downloadFromGCS (Key latest) w1 = (r2, w2)"
    by (cases "downloadFromGCS (Key latest) w1")
  from downloadFromGCS_net [OF d] ls1 have ls2: "localStorage w2 = localStorage w" by auto
  have n2: "w' \<noteq> w2" using changed ls2 by auto
  from run l r1 ne srt d n2 obtain o2 where r2: "r2 = Inr o2"
    by (cases r2) (simp_all add: pullFromCloud_def)
  from run l r1 ne srt d r2 n2 obtain dl where o2: "o2 = Some dl"
    by (cases o2) (simp_all add: pullFromCloud_def)
  from run l r1 ne srt d r2 o2 n2 obtain jsonString where
    t: "backup_text P latest dl w2 = Inr jsonString"
    by (cases "backup_text P latest dl w2") (simp_all add: pullFromCloud_def)
  from run l r1 ne srt d r2 o2 t n2 obtain syncData where p: "JSON_parse P jsonString = Some syncData"
    by (cases "JSON_parse P jsonString") (simp_all add: pullFromCloud_def)
  from run l r1 ne srt d r2 o2 t p n2 have nn: "syncData \<noteq> JNull"
    by (cases "syncData = JNull") (simp_all add: pullFromCloud_def)
  from run l r1 ne srt d r2 o2 t p nn n2 obtain dat where g: "get_prop syncData ''data'' = Some dat"
    by (cases "get_prop syncData ''data''") (simp_all add: pullFromCloud_def)
  from run l r1 ne srt d r2 o2 t p nn g n2 have td: "truthy dat"
    by (cases "truthy dat") (simp_all add: pullFromCloud_def)
  obtain r3 w3 where rs: "restoreApplicationData P dat w2 = (r3, w3)"
    by (cases "restoreApplicationData P dat w2")
  from run l r1 ne srt d r2 o2 t p nn g td rs have "localStorage w' = localStorage w3"
    by (cases r3) (auto simp: pullFromCloud_def)
  with changed ls2 have "w3 \<noteq> w2" by auto
  with rs td have "truthy_opt (get_prop dat ''chats'')"
    by (cases "truthy_opt (get_prop dat ''chats'')") (simp_all add: restoreApplicationData_def)
  with l r1 ne srt d r2 o2 t p g td show ?thesis by blast
qed

text \<open>
  Claim C3, as the code has it. When \<^verbatim>\<open>pullFromCloud\<close> throws for any reason other
  than a failing \<^verbatim>\<open>localStorage.setItem\<close> (so: incomplete configuration, a rejected
  listing or download, no backup listed, a missing encryption key, a failed decryption,
  invalid JSON, a payload without \<^verbatim>\<open>data\<close> or without \<^verbatim>\<open>chats\<close>), local storage is
  exactly as it was before the call. And whatever the outcome, local storage has changed
  only if a backup was listed, downloaded, decoded, parsed and found to have a truthy
  \<^verbatim>\<open>data\<close> with a truthy \<^verbatim>\<open>chats\<close>: every write comes after the payload has been
  decoded and checked in full.
\<close>

theorem pullFromCloud_failure_keeps_local_storage:
  assumes "pullFromCloud P w = (r, w')"
  shows "(\<forall>e. r = Inl e \<and> e \<noteq> QuotaExceeded \<longrightarrow> localStorage w' = localStorage w) \<and>
         (localStorage w' \<noteq> localStorage w \<longrightarrow>
            (\<exists>files w1 latest others dl w2 jsonString syncData d.
               listGCSObjects ''typingmind-backup-'' w = (Inr files, w1) \<and> files \<noteq> [] \<and>
               sorted_files P files = latest # others \<and>
               downloadFromGCS (Key latest) w1 = (Inr (Some dl), w2) \<and>
               backup_text P latest dl w2 = Inr jsonString \<and>
               JSON_parse P jsonString = Some syncData \<and>
               get_prop syncData ''data'' = Some d \<and> truthy d \<and>
               truthy_opt (get_prop d ''chats'')))"
  using pullFromCloud_error_frame [of P w _ w'] pullFromCloud_writes_validated [OF assms] assms
  by blast

text \<open>
  The claim promises an unchanged dataset for a pull that fails at any point. A pull
  can fail inside the restore: here the backup is valid, \<^verbatim>\<open>chats\<close> is written, the
  write of \<^verbatim>\<open>settings\<close> throws, and the pull ends in that error with the old chats
  gone.
\<close>

theorem pullFromCloud_fails_after_partial_overwrite:
  "fst (pullFromCloud full_storage_platform (pull_world ''{data:{chats:{a:1},settings:{}}}''))
     = Inl QuotaExceeded \<and>
   localStorage (pull_world ''{data:{chats:{a:1},settings:{}}}'') ''chats'' = Some ''{}'' \<and>
   localStorage
       (snd (pullFromCloud full_storage_platform
          (pull_world ''{data:{chats:{a:1},settings:{}}}''))) ''chats''
     = Some ''{a:n}''"
  by code_simp

theorem pullFromCloud_failure_keeps_local_storage_witness:
  "fst (pullFromCloud toy_platform (pull_world ''{data:{settings:{}}}''))
     = Inl InvalidDataStructure \<and>
   localStorage (snd (pullFromCloud toy_platform (pull_world ''{data:{settings:{}}}'')))
     = localStorage (pull_world ''{data:{settings:{}}}'')"
proof -
  let ?run = "pullFromCloud toy_platform (pull_world ''{data:{settings:{}}}'')"
  have e: "fst ?run = Inl InvalidDataStructure" by code_simp
  then have run: "?run = (Inl InvalidDataStructure, snd ?run)" by (cases ?run) simp
  from pullFromCloud_failure_keeps_local_storage [OF run] e show ?thesis by simp
qed

subsection \<open>The daily trigger\<close>

text \<open>
  Claim C6. \<^verbatim>\<open>isDailySyncTime\<close> holds exactly when \<^verbatim>\<open>lastSyncDate\<close> differs from
  today's date and the clock is at or after the configured time (the hour is greater
  than \<^verbatim>\<open>syncHour\<close>, or equal with the minute at least \<^verbatim>\<open>syncMinute\<close>). With 9 and 0
  configured, a tick before 9 o'clock, or on a day that is already stamped, leaves the
  world as it is: no sync is started.
\<close>

theorem daily_sync_trigger:
  "(isDailySyncTime w \<longleftrightarrow>
      lastSyncDate (config w) \<noteq> iso_date (now w) \<and>
      (local_hours (now w) > syncHour (config w) \<or>
       (local_hours (now w) = syncHour (config w) \<and>
        local_minutes (now w) \<ge> syncMinute (config w)))) \<and>
   (syncHour (config w) = 9 \<and> syncMinute (config w) = 0 \<and> 0 \<le> local_minutes (now w) \<longrightarrow>
      (isDailySyncTime w \<longleftrightarrow>
         lastSyncDate (config w) \<noteq> iso_date (now w) \<and> 9 \<le> local_hours (now w))) \<and>
   (syncHour (config w) = 9 \<and> syncMinute (config w) = 0 \<and>
    (local_hours (now w) < 9 \<or> lastSyncDate (config w) = iso_date (now w)) \<longrightarrow>
      \<not> isDailySyncTime w \<and> syncInterval_tick P w = w)"
  by (auto simp: isDailySyncTime_def syncInterval_tick_def Let_def)

theorem daily_sync_trigger_witness:
  "isDailySyncTime toy_world \<and>
   \<not> isDailySyncTime (toy_world\<lparr>now := (now toy_world)\<lparr>local_hours := 8, local_minutes := 59\<rparr>\<rparr>) \<and>
   syncInterval_tick toy_platform
       (toy_world\<lparr>now := (now toy_world)\<lparr>local_hours := 8, local_minutes := 59\<rparr>\<rparr>)
     = toy_world\<lparr>now := (now toy_world)\<lparr>local_hours := 8, local_minutes := 59\<rparr>\<rparr> \<and>
   syncInterval_tick toy_platform
       (toy_world\<lparr>config := (config toy_world)\<lparr>lastSyncDate := ''2024-01-02''\<rparr>\<rparr>)
     = toy_world\<lparr>config := (config toy_world)\<lparr>lastSyncDate := ''2024-01-02''\<rparr>\<rparr>"
  using daily_sync_trigger [of toy_world toy_platform]
    daily_sync_trigger
      [of "toy_world\<lparr>now := (now toy_world)\<lparr>local_hours := 8, local_minutes := 59\<rparr>\<rparr>"
        toy_platform]
    daily_sync_trigger
      [of "toy_world\<lparr>config := (config toy_world)\<lparr>lastSyncDate := ''2024-01-02''\<rparr>\<rparr>"
        toy_platform]
  by (simp add: toy_world_def toy_config_def)

subsection \<open>The direction decision\<close>

lemma js_gt_num: "js_gt P (JNum a) (JNum b) = (a > b)"
  by (simp add: js_gt_def to_number_def)

lemma or_zero_num: "or_zero (Some (JNum t)) = JNum t"
  by (simp add: or_zero_def)

lemma cloud_last_sync:
  "integer_timestamp cd \<Longrightarrow> or_zero (get_prop cd ''timestamp'') = JNum (cloud_timestamp cd)"
  by (auto simp: integer_timestamp_def cloud_timestamp_def or_zero_def
      split: option.splits json.splits)

lemma cached_cloud:
  "getCloudMetadata P (cached_world (cloud_json t n))
     = (Inr (cloud_json t n), cached_world (cloud_json t n))"
  by (simp add: getCloudMetadata_def cached_world_def cloud_json_def)

lemma absent_cloud:
  "getCloudMetadata toy_platform toy_world = (Inl NoCloudMetadataFound, toy_world)"
  by (simp add: getCloudMetadata_def downloadFromGCS_def initializeGCSClient_def
      isGcsConfigured_def request_def toy_world_def toy_config_def)

lemma example_sides:
  "local_side (local_md t n) = \<lparr>side_timestamp = t, side_count = int n\<rparr>"
  "cloud_side (cloud_json t n) = \<lparr>side_timestamp = t, side_count = int n\<rparr>"
  "integer_timestamp (cloud_json t n)" "cloud_json t n \<noteq> JNull"
  by (simp_all add: local_side_def cloud_side_def local_md_def cloud_json_def chats_json_def
      item_count_def cloud_timestamp_def integer_timestamp_def)

text \<open>
  Claim C1. Outside backup mode (where \<^verbatim>\<open>determineAndPerformSync\<close> pushes without
  looking at any metadata), and for cloud metadata that is an object with an integer or
  missing timestamp, \<^verbatim>\<open>determineAndPerformSync\<close> dispatches exactly as the rule of the
  specification says when it is given, for each side, the timestamp and the chat count
  that the code reads: a failed \<^verbatim>\<open>getCloudMetadata\<close> counts as absent metadata and gives
  a push; otherwise a newer cloud side with chats gives a pull, a newer local side with
  chats a push, and in the remaining cases the strictly greater cloud count gives a pull
  and anything else a push. The four examples of the specification come out as stated.
\<close>

theorem determineAndPerformSync_follows_decide:
  assumes mode: "syncMode (config w) \<noteq> ''backup''"
    and cloud: "getCloudMetadata P w = (r, w1)"
    and shape: "\<forall>cd. r = Inr cd \<longrightarrow> cd \<noteq> JNull \<and> integer_timestamp cd"
  shows "determineAndPerformSync P ld w =
           (case decide_spec (local_side ld)
                   (case r of Inl e \<Rightarrow> None | Inr cd \<Rightarrow> Some (cloud_side cd)) of
              Push \<Rightarrow> pushToCloud P (Some ld) w1
            | Pull \<Rightarrow> pullFromCloud P w1) \<and>
         decide_spec \<lparr>side_timestamp = 100, side_count = 5\<rparr>
           (Some \<lparr>side_timestamp = 200, side_count = 10\<rparr>) = Pull \<and>
         decide_spec \<lparr>side_timestamp = 200, side_count = 5\<rparr>
           (Some \<lparr>side_timestamp = 100, side_count = 0\<rparr>) = Push \<and>
         decide_spec \<lparr>side_timestamp = 100, side_count = 3\<rparr>
           (Some \<lparr>side_timestamp = 100, side_count = 7\<rparr>) = Pull \<and>
         decide_spec (local_side ld) None = Push"
proof (cases r)
  case (Inl e)
  with mode cloud show ?thesis
    by (simp add: determineAndPerformSync_def decide_spec_def)
next
  case (Inr cd)
  with shape have nn: "cd \<noteq> JNull" and it: "integer_timestamp cd" by simp_all
  from mode cloud Inr nn show ?thesis
    by (simp add: determineAndPerformSync_def decide_spec_def Let_def cloud_last_sync [OF it]
        or_zero_num js_gt_num local_side_def cloud_side_def)
qed

theorem determineAndPerformSync_follows_decide_witness:
  "determineAndPerformSync toy_platform (local_md 100 5) (cached_world (cloud_json 200 10))
     = pullFromCloud toy_platform (cached_world (cloud_json 200 10)) \<and>
   determineAndPerformSync toy_platform (local_md 200 5) (cached_world (cloud_json 100 0))
     = pushToCloud toy_platform (Some (local_md 200 5)) (cached_world (cloud_json 100 0)) \<and>
   determineAndPerformSync toy_platform (local_md 100 3) (cached_world (cloud_json 100 7))
     = pullFromCloud toy_platform (cached_world (cloud_json 100 7)) \<and>
   determineAndPerformSync toy_platform (local_md 100 5) toy_world
     = pushToCloud toy_platform (Some (local_md 100 5)) toy_world"
proof -
  have m: "syncMode (config (cached_world j)) \<noteq> ''backup''"
    "syncMode (config toy_world) \<noteq> ''backup''" for j
    by (simp_all add: cached_world_def toy_world_def toy_config_def)
  show ?thesis
    using
      determineAndPerformSync_follows_decide
        [where ld = "local_md 100 5" and P = toy_platform
           and w = "cached_world (cloud_json 200 10)", OF m(1) cached_cloud]
      determineAndPerformSync_follows_decide
        [where ld = "local_md 200 5" and P = toy_platform
           and w = "cached_world (cloud_json 100 0)", OF m(1) cached_cloud]
      determineAndPerformSync_follows_decide
        [where ld = "local_md 100 3" and P = toy_platform
           and w = "cached_world (cloud_json 100 7)", OF m(1) cached_cloud]
      determineAndPerformSync_follows_decide
        [where ld = "local_md 100 5" and P = toy_platform and w = toy_world,
         OF m(2) absent_cloud]
    by (simp add: example_sides decide_spec_def)
qed

subsection \<open>Reading cloud metadata\<close>

text \<open>
  Claim C7, as the code has it. With nothing cached and the requests accepted,
  \<^verbatim>\<open>getCloudMetadata\<close> throws in both cases: \<^verbatim>\<open>No cloud metadata found\<close> when the
  metadata object does not exist, and the \<^verbatim>\<open>SyntaxError\<close> of \<^verbatim>\<open>JSON.parse\<close> when the
  object exists but is not JSON. The two errors differ, but
  \<^verbatim>\<open>determineAndPerformSync\<close> answers every error of \<^verbatim>\<open>getCloudMetadata\<close> the same
  way, by pushing.
\<close>

theorem getCloudMetadata_failures:
  assumes "\<not> truthy (cloudMetadata w)" and "isGcsConfigured (config w)"
    and "fst (request w) = False" and "fst (request (snd (request w))) = False"
  shows "(map_of (bucket w) ''typingmind-metadata.json'' = None \<longrightarrow>
            fst (getCloudMetadata P w) = Inl NoCloudMetadataFound) \<and>
         (\<forall>obj. map_of (bucket w) ''typingmind-metadata.json'' = Some obj \<and>
                JSON_parse P (utf8_decode P (obj_data obj)) = None \<longrightarrow>
            fst (getCloudMetadata P w) = Inl SyntaxError) \<and>
         (\<forall>e w1 ld. syncMode (config w) \<noteq> ''backup'' \<and> getCloudMetadata P w = (Inl e, w1) \<longrightarrow>
            determineAndPerformSync P ld w = pushToCloud P (Some ld) w1)"
proof -
  obtain w1 where r1: "request w = (False, w1)" using assms(3) by (cases "request w") simp
  from request_net [OF r1] have b1: "bucket w1 = bucket w" by auto
  obtain w2 where r2: "request w1 = (False, w2)" using assms(4) r1 by (cases "request w1") simp
  show ?thesis
    using assms(1,2) r1 r2 b1
    by (auto simp: getCloudMetadata_def downloadFromGCS_def initializeGCSClient_def
        determineAndPerformSync_def)
qed

text \<open>
  The claim's absent result does not exist: on an empty bucket the call ends in an
  error.
\<close>

theorem getCloudMetadata_missing_object_throws:
  "fst (getCloudMetadata toy_platform toy_world) = Inl NoCloudMetadataFound"
  by code_simp

theorem getCloudMetadata_failures_witness:
  "fst (getCloudMetadata toy_platform toy_world) = Inl NoCloudMetadataFound \<and>
   fst (getCloudMetadata toy_platform bad_metadata_world) = Inl SyntaxError \<and>
   determineAndPerformSync toy_platform (local_md 100 5) bad_metadata_world
     = pushToCloud toy_platform (Some (local_md 100 5)) bad_metadata_world"
proof -
  have a: "\<not> truthy (cloudMetadata toy_world)" "isGcsConfigured (config toy_world)"
    "fst (request toy_world) = False" "fst (request (snd (request toy_world))) = False"
    by (simp_all add: toy_world_def toy_config_def isGcsConfigured_def request_def)
  have b: "\<not> truthy (cloudMetadata bad_metadata_world)"
    "isGcsConfigured (config bad_metadata_world)"
    "fst (request bad_metadata_world) = False"
    "fst (request (snd (request bad_metadata_world))) = False"
    by (simp_all add: bad_metadata_world_def toy_world_def toy_config_def isGcsConfigured_def
        request_def)
  have bad: "getCloudMetadata toy_platform bad_metadata_world = (Inl SyntaxError, bad_metadata_world)"
    by (simp add: getCloudMetadata_def downloadFromGCS_def initializeGCSClient_def
        isGcsConfigured_def request_def bad_metadata_world_def toy_world_def toy_config_def
        stored_backup_def toy_platform_def toy_decode_encode toy_parse_def)
  have mode: "syncMode (config bad_metadata_world) \<noteq> ''backup''"
    by (simp add: bad_metadata_world_def toy_world_def toy_config_def)
  from getCloudMetadata_failures [OF a, of toy_platform]
  have 1: "fst (getCloudMetadata toy_platform toy_world) = Inl NoCloudMetadataFound"
    by (simp add: toy_world_def)
  from getCloudMetadata_failures [OF b, of toy_platform] mode bad
  have 2: "determineAndPerformSync toy_platform (local_md 100 5) bad_metadata_world
     = pushToCloud toy_platform (Some (local_md 100 5)) bad_metadata_world"
    by blast
  from 1 2 bad show ?thesis by simp
qed

subsection \<open>The main entry\<close>

text \<open>
  Claim C9, as the code has it. Called with an options value other than \<^verbatim>\<open>null\<close>
  (or with none), \<^verbatim>\<open>performSync\<close> never throws: its result is a boolean. For every
  options value the result is \<^verbatim>\<open>true\<close> exactly when the guards pass and the \<^verbatim>\<open>try\<close>
  block ends without an exception; a call that starts with \<^verbatim>\<open>isRunning\<close> false ends
  with \<^verbatim>\<open>isRunning\<close> false; and a call made while \<^verbatim>\<open>isRunning\<close> is true, or while the
  GCS configuration is incomplete, returns \<^verbatim>\<open>false\<close> and leaves the whole world as it
  was: no request to the service, no write to local storage, and the flag as it found
  it.
\<close>

theorem performSync_never_throws:
  "(opts \<noteq> None \<longrightarrow> (\<exists>b. fst (performSync P opts w) = Inr b)) \<and>
   (fst (performSync P opts w) = Inr True \<longleftrightarrow>
      \<not> isRunning w \<and> isGcsConfigured (config w) \<and>
      (syncMode (config w) \<noteq> ''disabled'' \<or> (\<exists>given. opts = Some given \<and> force given)) \<and>
      (\<exists>b. fst (performSync_try P opts (w\<lparr>isRunning := True\<rparr>)) = Inr b)) \<and>
   (\<not> isRunning w \<longrightarrow> \<not> isRunning (snd (performSync P opts w))) \<and>
   (isRunning w \<or> \<not> isGcsConfigured (config w) \<longrightarrow> performSync P opts w = (Inr False, w))"
proof -
  obtain r w1 where t: "performSync_try P opts (w\<lparr>isRunning := True\<rparr>) = (r, w1)"
    by (cases "performSync_try P opts (w\<lparr>isRunning := True\<rparr>)")
  have "r = Inr True \<or> (\<exists>e. r = Inl e)"
    using t by (auto simp: performSync_try_def split: prod.splits sum.splits)
  with t show ?thesis
    by (cases opts) (auto simp: performSync_def not_forced_def)
qed

text \<open>
  The claim says that \<^verbatim>\<open>isRunning\<close> is false after every call, and that no call throws
  whatever the options. After a call made while the flag is true it is still true; and
  in the mode \<^verbatim>\<open>disabled\<close> a call with \<^verbatim>\<open>null\<close> for options throws a \<^verbatim>\<open>TypeError\<close>,
  since \<^verbatim>\<open>options.force\<close> is read in front of the \<^verbatim>\<open>try\<close>.
\<close>

theorem performSync_keeps_flag_and_can_throw:
  "isRunning (snd (performSync toy_platform (Some \<lparr>force = True, direction = None\<rparr>)
       (toy_world\<lparr>isRunning := True\<rparr>))) \<and>
   fst (performSync toy_platform None disabled_world) = Inl TypeError"
  by (simp add: performSync_def not_forced_def disabled_world_def toy_world_def toy_config_def
      isGcsConfigured_def)

theorem performSync_never_throws_witness:
  "fst (performSync toy_platform no_options toy_world) = Inr True \<and>
   \<not> isRunning (snd (performSync toy_platform no_options toy_world)) \<and>
   performSync toy_platform (Some \<lparr>force = True, direction = Some ''pull''\<rparr>)
       (toy_world\<lparr>isRunning := True\<rparr>)
     = (Inr False, toy_world\<lparr>isRunning := True\<rparr>) \<and>
   fst (performSync toy_platform None toy_world) = Inr False \<and>
   \<not> isRunning (snd (performSync toy_platform None toy_world))"
proof -
  have ok: "fst (performSync toy_platform no_options toy_world) = Inr True"
    by code_simp
  have null: "fst (performSync toy_platform None toy_world) = Inr False"
    by code_simp
  have idle: "\<not> isRunning toy_world" by (simp add: toy_world_def)
  from performSync_never_throws [of no_options toy_platform toy_world]
    performSync_never_throws
      [of "Some \<lparr>force = True, direction = Some ''pull''\<rparr>" toy_platform
        "toy_world\<lparr>isRunning := True\<rparr>"]
    performSync_never_throws [of None toy_platform toy_world]
    ok null idle
  show ?thesis by simp
qed

subsection \<open>The day stamp\<close>

text \<open>
  Claim C5 does not hold of the code. The timer callback sets \<^verbatim>\<open>lastSyncDate\<close> and
  saves the configuration after \<^verbatim>\<open>performSync\<close> returns, whatever it returns; since
  \<^verbatim>\<open>performSync\<close>, called without argument as it is here, turns every failure into
  \<^verbatim>\<open>false\<close>, the \<^verbatim>\<open>catch\<close> of the callback is never reached. Here the service rejects
  the requests: the sync fails, nothing is uploaded, and yet the day is stamped and
  saved, so that no later tick of that day tries again.
\<close>

theorem daily_tick_stamps_after_failed_sync:
  "fst (performSync toy_platform no_options offline_world) = Inr False \<and>
   lastSyncDate (config offline_world) = ''2024-01-01'' \<and>
   lastSyncDate (config (syncInterval_tick toy_platform offline_world)) = ''2024-01-02'' \<and>
   localStorage (syncInterval_tick toy_platform offline_world) ''last-sync-date''
     = Some ''2024-01-02'' \<and>
   bucket (syncInterval_tick toy_platform offline_world) = [] \<and>
   isDailySyncTime offline_world \<and>
   \<not> isDailySyncTime (syncInterval_tick toy_platform offline_world)"
  by code_simp

subsection \<open>The envelope\<close>

text \<open>
  The header length survives its four bytes, and the views that \<^verbatim>\<open>decryptData\<close> cuts
  out of an envelope laid out as \<^verbatim>\<open>encryptData\<close> lays it out are the header, the salt,
  the IV and the ciphertext.
\<close>

lemma le32_arith:
  fixes n :: nat
  assumes "n < 2 ^ 32"
  shows "n mod 256 + 256 * (n div 256 mod 256) + 65536 * (n div 65536 mod 256)
          + 16777216 * (n div 16777216 mod 256) = n"
proof -
  define q1 where "q1 = n div 256"
  define q2 where "q2 = q1 div 256"
  define q3 where "q3 = q2 div 256"
  have e2: "n div 65536 = q2"
    using div_mult2_eq [of n 256 256] by (simp add: q1_def q2_def)
  have e3: "n div 16777216 = q3"
    using div_mult2_eq [of n 65536 256] e2 by (simp add: q3_def)
  have s0: "n = n mod 256 + 256 * q1" by (simp add: q1_def)
  have s1: "q1 = q1 mod 256 + 256 * q2" by (simp add: q2_def)
  have s2: "q2 = q2 mod 256 + 256 * q3" by (simp add: q3_def)
  have "n < 16777216 * 256" using assms by simp
  then have "q3 < 256" unfolding e3 [symmetric]
    by (simp add: div_less_iff_less_mult)
  then have s3: "q3 mod 256 = q3" by simp
  have "n mod 256 + 256 * (q1 mod 256) + 65536 * (q2 mod 256) + 16777216 * (q3 mod 256) = n"
    using s0 s1 s2 s3 by linarith
  then show ?thesis by (simp add: e2 e3 q1_def)
qed

lemma getUint32_uint32_bytes:
  assumes "n < 2 ^ 32"
  shows "getUint32 (uint32_bytes n @ rest) = Some n"
  using assms le32_arith [OF assms]
  by (simp add: getUint32_def uint32_bytes_def unat_of_nat)

lemma length_uint32_bytes: "length (uint32_bytes n) = 4"
  by (simp add: uint32_bytes_def Let_def)


lemma view_header:
  "length l4 = 4 \<Longrightarrow> view (l4 @ hb @ rest) 4 (int (length hb)) = Some hb"
  by (simp add: view_def)

lemma view_salt:
  "length l4 = 4 \<Longrightarrow>
     view (l4 @ hb @ salt @ rest) (4 + int (length hb)) (int (length salt)) = Some salt"
  by (simp add: view_def nat_add_distrib)

lemma view_iv:
  "length l4 = 4 \<Longrightarrow>
     view (l4 @ hb @ salt @ iv @ rest) (4 + int (length hb) + int (length salt)) (int (length iv))
       = Some iv"
  by (simp add: view_def nat_add_distrib)

lemma view_rest_sealed:
  "length l4 = 4 \<Longrightarrow>
     view_rest (l4 @ hb @ salt @ iv @ rest)
       (4 + int (length hb) + int (length salt) + int (length iv)) = Some rest"
  by (simp add: view_rest_def nat_add_distrib)

lemma decryptData_open_envelope:
  assumes hdr: "decode_header P hb = Some h"
    and ver: "version h \<le> 1"
    and sizes: "saltSize h = int (length salt)" "ivSize h = int (length iv)"
    and len: "length hb < 2 ^ 32"
  shows "decryptData_open P (uint32_bytes (length hb) @ hb @ salt @ iv @ sealed) password =
           (case deriveKey P password salt (iterations h) of
              Inl e \<Rightarrow> Inl DecryptFailed
            | Inr key \<Rightarrow> Inr (key, iv, sealed))"
  using hdr ver sizes
  by (simp add: decryptData_open_def getUint32_uint32_bytes [OF len] Let_def
      view_header [OF length_uint32_bytes] view_salt [OF length_uint32_bytes]
      view_iv [OF length_uint32_bytes] view_rest_sealed [OF length_uint32_bytes])

lemma fresh_lengths: "length (fresh_salt w) = 16" "length (fresh_iv w) = 12"
  by (simp_all add: fresh_salt_def fresh_iv_def getRandomBytes_def)

lemma encryptData_result:
  "encryptData P data password w =
     (case deriveKey P password (fresh_salt w) 100000 of
        Inl e \<Rightarrow> (Inl EncryptFailed, snd (getRandomBytes 12 (snd (getRandomBytes 16 w))))
      | Inr key \<Rightarrow>
          (case aes_gcm_encrypt P key (fresh_iv w) (payload_bytes P data) of
             None \<Rightarrow> (Inl EncryptFailed, snd (getRandomBytes 12 (snd (getRandomBytes 16 w))))
           | Some sealed \<Rightarrow>
               (Inr (envelope_front P w @ sealed),
                snd (getRandomBytes 12 (snd (getRandomBytes 16 w))))))"
  by (simp add: encryptData_def fresh_salt_def fresh_iv_def envelope_front_def fresh_header_def
      getRandomBytes_def Let_def split: sum.splits option.splits)

lemma decryptData_open_front:
  assumes hdr: "decode_header P (fresh_header P w) = Some (make_header 16 12 (epoch_ms (now w)))"
    and len: "length (fresh_header P w) < 2 ^ 32"
  shows "decryptData_open P (envelope_front P w @ sealed) password =
           (case deriveKey P password (fresh_salt w) 100000 of
              Inl e \<Rightarrow> Inl DecryptFailed
            | Inr key \<Rightarrow> Inr (key, fresh_iv w, sealed))"
  using decryptData_open_envelope [OF hdr _ _ _ len, of "fresh_salt w" "fresh_iv w" sealed password]
  by (simp add: envelope_front_def make_header_def fresh_lengths)

lemma toy_header:
  "decode_header toy_platform (fresh_header toy_platform toy_world)
     = Some (make_header 16 12 (epoch_ms (now toy_world)))"
  "length (fresh_header toy_platform toy_world) < 2 ^ 32"
  by (simp_all add: fresh_header_def toy_platform_def toy_world_def toy_decode_header_def
      toy_encode_header_def make_header_def)

lemma toy_aead:
  "\<forall>key iv plain sealed.
     aes_gcm_encrypt toy_platform key iv plain = Some sealed \<longrightarrow>
     aes_gcm_decrypt toy_platform key iv sealed = Some plain"
  by (auto simp: toy_platform_def toy_seal_def toy_unseal_def toy_tag_def)

lemma toy_key:
  "deriveKey toy_platform ''a'' (fresh_salt toy_world) 100000 = Inr (97 # fresh_salt toy_world)"
  "deriveKey toy_platform ''b'' (fresh_salt toy_world) 100000 = Inr (98 # fresh_salt toy_world)"
  by (simp_all add: deriveKey_def toy_platform_def toy_encode_def)

lemma toy_encrypt:
  "encryptData toy_platform (Binary [1, 2, 3]) ''a'' toy_world =
     (Inr (envelope_front toy_platform toy_world @ [1, 2, 3] @ replicate 16 97),
      snd (getRandomBytes 12 (snd (getRandomBytes 16 toy_world))))"
  by (simp add: encryptData_result toy_key)
    (simp add: toy_platform_def toy_seal_def toy_tag_def payload_bytes_def)

text \<open>
  Claim C2. Take a platform on which \<^verbatim>\<open>JSON.parse\<close> reads back the header that
  \<^verbatim>\<open>encryptData\<close> writes, the header text is shorter than \<open>2\<^sup>3\<^sup>2\<close> bytes, and AES-GCM
  decryption under the same key and IV undoes encryption. Then every envelope that
  \<^verbatim>\<open>encryptData\<close> returns for a payload and a password decrypts, with the same
  password, to exactly the bytes of the payload; the envelope is the four length bytes,
  the header, the sixteen salt bytes, the twelve IV bytes and the ciphertext with its
  tag; and \<^verbatim>\<open>encryptData\<close> does return an envelope whenever key derivation and
  encryption succeed.
\<close>

theorem decrypt_encrypt_roundtrip:
  assumes hdr: "decode_header P (fresh_header P w) = Some (make_header 16 12 (epoch_ms (now w)))"
    and len: "length (fresh_header P w) < 2 ^ 32"
    and aead: "\<forall>key iv plain sealed.
        aes_gcm_encrypt P key iv plain = Some sealed \<longrightarrow>
        aes_gcm_decrypt P key iv sealed = Some plain"
  shows "(\<forall>envelope w'.
            encryptData P data password w = (Inr envelope, w') \<longrightarrow>
              decryptData P envelope password = Inr (payload_bytes P data) \<and>
              (\<exists>sealed. envelope = envelope_front P w @ sealed)) \<and>
         (pbkdf2 P (utf8_encode P password) (fresh_salt w) 100000 \<noteq> None \<and>
          (\<forall>key. aes_gcm_encrypt P key (fresh_iv w) (payload_bytes P data) \<noteq> None) \<longrightarrow>
            (\<exists>envelope w'. encryptData P data password w = (Inr envelope, w'))) \<and>
         length (uint32_bytes (length (fresh_header P w))) = 4 \<and>
         length (fresh_salt w) = 16 \<and> length (fresh_iv w) = 12"
proof -
  have rt: "decryptData P envelope password = Inr (payload_bytes P data) \<and>
      (\<exists>sealed. envelope = envelope_front P w @ sealed)"
    if enc: "encryptData P data password w = (Inr envelope, w')" for envelope w'
  proof -
    from enc obtain key sealed where
      key: "deriveKey P password (fresh_salt w) 100000 = Inr key"
      and sealed: "aes_gcm_encrypt P key (fresh_iv w) (payload_bytes P data) = Some sealed"
      and env: "envelope = envelope_front P w @ sealed"
      by (auto simp: encryptData_result split: sum.splits option.splits)
    from aead sealed have "aes_gcm_decrypt P key (fresh_iv w) sealed = Some (payload_bytes P data)"
      by blast
    with key env show ?thesis
      by (simp add: decryptData_def decryptData_open_front [OF hdr len])
  qed
  have made: "\<exists>envelope w'. encryptData P data password w = (Inr envelope, w')"
    if "pbkdf2 P (utf8_encode P password) (fresh_salt w) 100000 \<noteq> None"
      and "\<forall>key. aes_gcm_encrypt P key (fresh_iv w) (payload_bytes P data) \<noteq> None"
  proof -
    from that(1) obtain key where k: "pbkdf2 P (utf8_encode P password) (fresh_salt w) 100000 = Some key"
      by blast
    from that(2) obtain sealed where
      "aes_gcm_encrypt P key (fresh_iv w) (payload_bytes P data) = Some sealed" by blast
    with k show ?thesis by (simp add: encryptData_result deriveKey_def)
  qed
  from rt made show ?thesis
    by (simp add: fresh_lengths length_uint32_bytes)
qed

theorem decrypt_encrypt_roundtrip_witness:
  "decryptData toy_platform
     (envelope_front toy_platform toy_world @ [1, 2, 3] @ replicate 16 97) ''a''
     = Inr [1, 2, 3] \<and>
   fst (encryptData toy_platform (Binary [1, 2, 3]) ''a'' toy_world)
     = Inr (envelope_front toy_platform toy_world @ [1, 2, 3] @ replicate 16 97)"
  using decrypt_encrypt_roundtrip [OF toy_header toy_aead, of "Binary [1, 2, 3]" "''a''"]
    toy_encrypt
  by (simp add: payload_bytes_def)

text \<open>
  Claim C4. Whenever \<^verbatim>\<open>decryptData\<close> gets as far as AES-GCM and the tag verification
  fails, it throws \<^verbatim>\<open>Invalid password or corrupted data\<close>, and it returns a plaintext
  only if AES-GCM has verified and returned that plaintext. For an envelope made by
  \<^verbatim>\<open>encryptData\<close> this is the outcome both for another password whose key fails the
  verification and for a ciphertext altered after encryption: the same error in both
  cases.
\<close>

theorem decryptData_tag_failure:
  assumes hdr: "decode_header P (fresh_header P w) = Some (make_header 16 12 (epoch_ms (now w)))"
    and len: "length (fresh_header P w) < 2 ^ 32"
  shows "(\<forall>key iv sealed.
            decryptData_open P env password = Inr (key, iv, sealed) \<and>
            aes_gcm_decrypt P key iv sealed = None \<longrightarrow>
              decryptData P env password = Inl InvalidPasswordOrCorruptedData) \<and>
         (\<forall>plain.
            decryptData P env password = Inr plain \<longrightarrow>
              (\<exists>key iv sealed. decryptData_open P env password = Inr (key, iv, sealed) \<and>
                 aes_gcm_decrypt P key iv sealed = Some plain)) \<and>
         (\<forall>envelope w' K2 key2 sealed.
            encryptData P data K1 w = (Inr envelope, w') \<and>
            envelope = envelope_front P w @ sealed \<and>
            deriveKey P K2 (fresh_salt w) 100000 = Inr key2 \<and>
            aes_gcm_decrypt P key2 (fresh_iv w) sealed = None \<longrightarrow>
              decryptData P envelope K2 = Inl InvalidPasswordOrCorruptedData) \<and>
         (\<forall>key1 sealed'.
            deriveKey P K1 (fresh_salt w) 100000 = Inr key1 \<and>
            aes_gcm_decrypt P key1 (fresh_iv w) sealed' = None \<longrightarrow>
              decryptData P (envelope_front P w @ sealed') K1
                = Inl InvalidPasswordOrCorruptedData)"
proof -
  have 1: "decryptData P env password = Inl InvalidPasswordOrCorruptedData"
    if "decryptData_open P env password = Inr (key, iv, sealed)"
      and "aes_gcm_decrypt P key iv sealed = None" for key iv sealed
    using that by (simp add: decryptData_def)
  have 2: "\<exists>key iv sealed. decryptData_open P env password = Inr (key, iv, sealed) \<and>
      aes_gcm_decrypt P key iv sealed = Some plain"
    if "decryptData P env password = Inr plain" for plain
    using that by (auto simp: decryptData_def split: sum.splits option.splits)
  have 3: "decryptData P (envelope_front P w @ sealed) K = Inl InvalidPasswordOrCorruptedData"
    if "deriveKey P K (fresh_salt w) 100000 = Inr key"
      and "aes_gcm_decrypt P key (fresh_iv w) sealed = None" for K key sealed
    using that by (simp add: decryptData_def decryptData_open_front [OF hdr len])
  from 1 2 3 show ?thesis by blast
qed

theorem decryptData_tag_failure_witness:
  "decryptData toy_platform
     (envelope_front toy_platform toy_world @ [1, 2, 3] @ replicate 16 97) ''b''
     = Inl InvalidPasswordOrCorruptedData \<and>
   decryptData toy_platform
     (envelope_front toy_platform toy_world @ [1, 2, 3] @ replicate 15 97 @ [96]) ''a''
     = Inl InvalidPasswordOrCorruptedData"
proof -
  have wrong: "aes_gcm_decrypt toy_platform (98 # fresh_salt toy_world) (fresh_iv toy_world)
      ([1, 2, 3] @ replicate 16 97) = None"
    by (simp add: toy_platform_def toy_unseal_def toy_tag_def)
  have altered: "aes_gcm_decrypt toy_platform (97 # fresh_salt toy_world) (fresh_iv toy_world)
      ([1, 2, 3] @ replicate 15 97 @ [96]) = None"
    by code_simp
  from decryptData_tag_failure [OF toy_header, of _ _ "Binary [1, 2, 3]" "''a''"]
    toy_encrypt toy_key wrong altered
  show ?thesis by blast
qed

subsection \<open>Two pushes\<close>

text \<open>
  A successful upload puts its object under its key and leaves the other keys alone; a
  successful push leaves configuration, clock and local storage as they were.
\<close>

lemma map_of_put_object:
  "map_of (put_object k v xs) k' = (if k' = k then Some v else map_of xs k')"
  by (induction xs) auto

lemma uploadToGCS_ok:
  assumes "uploadToGCS key data metadata w = (Inr b, w')"
  shows "\<exists>ns obj. obj_data obj = data \<and>
           w' = w\<lparr>net := ns, bucket := put_object key obj (bucket w)\<rparr>"
proof -
  obtain rj w1 where rq: "request w = (rj, w1)" by (cases "request w")
  from request_net [OF rq] obtain ns where w1: "w1 = w\<lparr>net := ns\<rparr>" by blast
  from assms rq have "w' = w1\<lparr>bucket := put_object key
      \<lparr>obj_data = data, obj_metadata = metadata, obj_contentType = content_type_of key\<rparr>
      (bucket w1)\<rparr>"
    by (auto simp: uploadToGCS_def split: sum.splits bool.splits)
  with w1 have "obj_data \<lparr>obj_data = data, obj_metadata = metadata,
        obj_contentType = content_type_of key\<rparr> = data \<and>
      w' = w\<lparr>net := ns, bucket := put_object key
        \<lparr>obj_data = data, obj_metadata = metadata, obj_contentType = content_type_of key\<rparr>
        (bucket w)\<rparr>" by simp
  then show ?thesis by blast
qed

lemma saveCloudMetadata_ok:
  assumes "saveCloudMetadata P d w = (Inr b, w')"
  shows "\<exists>ns obj. w' = w\<lparr>net := ns,
           bucket := put_object ''typingmind-metadata.json'' obj (bucket w),
           cloudMetadata := d\<rparr>"
proof -
  obtain r u where up: "uploadToGCS ''typingmind-metadata.json''
       (utf8_encode P (JSON_stringify P d))
       [(''contentType'', ''application/json''),
        (''timestamp'', num_toString P (epoch_ms (now w)))] w = (r, u)"
    by (cases "uploadToGCS ''typingmind-metadata.json''
       (utf8_encode P (JSON_stringify P d))
       [(''contentType'', ''application/json''),
        (''timestamp'', num_toString P (epoch_ms (now w)))] w")
  from assms up obtain b' where r: "r = Inr b'" and w': "w' = u\<lparr>cloudMetadata := d\<rparr>"
    by (auto simp: saveCloudMetadata_def split: sum.splits)
  from uploadToGCS_ok [OF up [unfolded r]] obtain ns obj where
    "u = w\<lparr>net := ns, bucket := put_object ''typingmind-metadata.json'' obj (bucket w)\<rparr>"
    by blast
  with w' have "w' = w\<lparr>net := ns,
           bucket := put_object ''typingmind-metadata.json'' obj (bucket w),
           cloudMetadata := d\<rparr>" by simp
  then show ?thesis by blast
qed

lemma push_uploadData_entropy:
  assumes "push_uploadData P j w = (r, w')"
  shows "\<exists>en. w' = w\<lparr>entropy := en\<rparr>"
proof -
  have "snd (encryptData P d k w) = w\<lparr>entropy := (\<lambda>i. entropy w (i + 16 + 12))\<rparr>" for d k
    by (simp add: encryptData_def getRandomBytes_def Let_def split: sum.splits option.splits)
  then have e: "\<exists>en. snd (encryptData P d k w) = w\<lparr>entropy := en\<rparr>" for d k by blast
  have "w' = w \<or> (\<exists>d k. w' = snd (encryptData P d k w))"
    using assms by (auto simp: push_uploadData_def split: if_splits) (metis snd_conv)
  then show ?thesis
  proof
    assume "w' = w"
    then have "w' = w\<lparr>entropy := entropy w\<rparr>" by simp
    then show ?thesis by blast
  next
    assume "\<exists>d k. w' = snd (encryptData P d k w)"
    with e show ?thesis by auto
  qed
qed

lemma backup_key_not_metadata: "backup_key w \<noteq> ''typingmind-metadata.json''"
  by (simp add: backup_key_def)

lemma backup_key_cong:
  "config w' = config w \<Longrightarrow> now w' = now w \<Longrightarrow> backup_key w' = backup_key w"
  by (simp add: backup_key_def)

lemma pushToCloud_ok:
  assumes "pushToCloud P ld w = (Inr True, w')"
  shows "\<exists>a up v obj.
           push_appData P ld w = Inr a \<and>
           push_uploadData P (JSON_stringify P (dataToSync a w)) w = (Inr up, v) \<and>
           config w' = config w \<and> localStorage w' = localStorage w \<and> now w' = now w \<and>
           map_of (bucket w') (backup_key w) = Some obj \<and> obj_data obj = up \<and>
           (\<forall>k. k \<noteq> backup_key w \<and> k \<noteq> ''typingmind-metadata.json'' \<longrightarrow>
                map_of (bucket w') k = map_of (bucket w) k)"
proof -
  from assms obtain a where a: "push_appData P ld w = Inr a"
    by (cases "push_appData P ld w") (simp_all add: pushToCloud_def)
  obtain r1 v where u: "push_uploadData P (JSON_stringify P (dataToSync a w)) w = (r1, v)"
    by (cases "push_uploadData P (JSON_stringify P (dataToSync a w)) w")
  from assms a u obtain up where r1: "r1 = Inr up"
    by (cases r1) (simp_all add: pushToCloud_def)
  from push_uploadData_entropy [OF u] obtain en where v: "v = w\<lparr>entropy := en\<rparr>" by blast
  then have kv: "backup_key v = backup_key w" by (simp add: backup_key_def)
  define md where "md = [(''contentType'',
                         if encryptionEnabled (config v) then ''application/octet-stream''
                         else ''application/json''),
                        (''syncType'', ''regular''),
                        (''encrypted'', bool_toString (encryptionEnabled (config v))),
                        (''timestamp'', num_toString P (epoch_ms (now v)))]"
  obtain r2 w2 where g: "uploadToGCS (backup_key v) up md v = (r2, w2)"
    by (cases "uploadToGCS (backup_key v) up md v")
  from assms a u r1 g obtain b2 where r2: "r2 = Inr b2"
    by (cases r2) (simp_all add: pushToCloud_def md_def)
  from uploadToGCS_ok [OF g [unfolded r2]] obtain ns obj where obj: "obj_data obj = up"
    and w2: "w2 = v\<lparr>net := ns, bucket := put_object (backup_key v) obj (bucket v)\<rparr>" by blast
  obtain r3 w3 where m: "saveCloudMetadata P (dataToSync a w) w2 = (r3, w3)"
    by (cases "saveCloudMetadata P (dataToSync a w) w2")
  from assms a u r1 g r2 m obtain b3 where r3: "r3 = Inr b3" and w': "w' = w3"
    by (cases r3) (simp_all add: pushToCloud_def md_def)
  from saveCloudMetadata_ok [OF m [unfolded r3]] obtain ns' obj' where
    w3: "w3 = w2\<lparr>net := ns',
           bucket := put_object ''typingmind-metadata.json'' obj' (bucket w2),
           cloudMetadata := dataToSync a w\<rparr>" by blast
  have frame: "config w' = config w" "localStorage w' = localStorage w" "now w' = now w"
    using w' w3 w2 v by simp_all
  have bk: "map_of (bucket w') k =
      (if k = ''typingmind-metadata.json'' then Some obj'
       else if k = backup_key w then Some obj else map_of (bucket w) k)" for k
    using w' w3 w2 v kv by (simp add: map_of_put_object)
  from bk [of "backup_key w"] have "map_of (bucket w') (backup_key w) = Some obj"
    by (simp add: backup_key_not_metadata)
  moreover from bk have "\<forall>k. k \<noteq> backup_key w \<and> k \<noteq> ''typingmind-metadata.json'' \<longrightarrow>
                map_of (bucket w') k = map_of (bucket w) k" by simp
  ultimately show ?thesis using a u r1 frame obj by blast
qed

lemma parse_item_cong:
  "localStorage w' = localStorage w \<Longrightarrow> parse_item P w' k d = parse_item P w k d"
  by (simp add: parse_item_def)

lemma getApplicationData_Inr:
  assumes "getApplicationData P w = Inr a"
  shows "\<exists>c s f d. parse_item P w ''chats'' ''{}'' = Inr c \<and>
           parse_item P w ''settings'' ''{}'' = Inr s \<and>
           parse_item P w ''favorites'' ''[]'' = Inr f \<and>
           parse_item P w ''folders'' ''[]'' = Inr d \<and>
           a = JObj [(''chats'', c), (''settings'', s), (''favorites'', f), (''folders'', d),
                     (''timestamp'', JNum (epoch_ms (now w)))]"
proof -
  from assms obtain c where c: "parse_item P w ''chats'' ''{}'' = Inr c"
    by (cases "parse_item P w ''chats'' ''{}''") (simp_all add: getApplicationData_def)
  from assms c obtain s where s: "parse_item P w ''settings'' ''{}'' = Inr s"
    by (cases "parse_item P w ''settings'' ''{}''") (simp_all add: getApplicationData_def)
  from assms c s obtain f where f: "parse_item P w ''favorites'' ''[]'' = Inr f"
    by (cases "parse_item P w ''favorites'' ''[]''") (simp_all add: getApplicationData_def)
  from assms c s f obtain d where d: "parse_item P w ''folders'' ''[]'' = Inr d"
    by (cases "parse_item P w ''folders'' ''[]''") (simp_all add: getApplicationData_def)
  from assms c s f d show ?thesis by (simp add: getApplicationData_def)
qed

lemma push_appData_agree:
  assumes a1: "push_appData P ld w = Inr a1" and a2: "push_appData P ld w' = Inr a2"
    and ls: "localStorage w' = localStorage w" and k: "k \<noteq> ''timestamp''"
  shows "get_prop a1 k = get_prop a2 k"
proof (cases ld)
  case (Some m)
  with a1 a2 show ?thesis by (simp add: push_appData_def)
next
  case None
  with a1 a2 have g: "getApplicationData P w = Inr a1" "getApplicationData P w' = Inr a2"
    by (simp_all add: push_appData_def)
  from getApplicationData_Inr [OF g(1)] getApplicationData_Inr [OF g(2)] k
  show ?thesis by (auto simp: parse_item_cong [OF ls])
qed

text \<open>
  Claim C8, as the code has it. Two successful pushes with the same argument, the second
  at a later reading of the clock, store their uploads under the backup keys of their
  dates: the second object is in the bucket under the key of the second date; when the
  two dates differ the keys differ and the first object is still in the bucket under
  the key of the first date; when the dates are equal the keys are equal, so the second
  upload has replaced the first. The application data of the two uploads agree in every
  field but \<^verbatim>\<open>timestamp\<close>; without encryption each upload is the encoded JSON text of
  its \<^verbatim>\<open>dataToSync\<close>.
\<close>

theorem two_pushes_in_succession:
  assumes p1: "pushToCloud P ld w = (Inr True, w1)"
    and p2: "pushToCloud P ld (w1\<lparr>now := t2\<rparr>) = (Inr True, w2)"
  shows "\<exists>a1 a2 up1 up2 v1 v2 o2.
           push_appData P ld w = Inr a1 \<and>
           push_appData P ld (w1\<lparr>now := t2\<rparr>) = Inr a2 \<and>
           (\<forall>k. k \<noteq> ''timestamp'' \<longrightarrow> get_prop a1 k = get_prop a2 k) \<and>
           push_uploadData P (JSON_stringify P (dataToSync a1 w)) w = (Inr up1, v1) \<and>
           push_uploadData P (JSON_stringify P (dataToSync a2 (w1\<lparr>now := t2\<rparr>)))
               (w1\<lparr>now := t2\<rparr>) = (Inr up2, v2) \<and>
           (\<not> encryptionEnabled (config w) \<longrightarrow>
              up1 = utf8_encode P (JSON_stringify P (dataToSync a1 w)) \<and>
              up2 = utf8_encode P (JSON_stringify P (dataToSync a2 (w1\<lparr>now := t2\<rparr>)))) \<and>
           map_of (bucket w2) (backup_key (w1\<lparr>now := t2\<rparr>)) = Some o2 \<and> obj_data o2 = up2 \<and>
           (iso_date t2 \<noteq> iso_date (now w) \<longrightarrow>
              backup_key (w1\<lparr>now := t2\<rparr>) \<noteq> backup_key w \<and>
              (\<exists>o1. map_of (bucket w2) (backup_key w) = Some o1 \<and> obj_data o1 = up1)) \<and>
           (iso_date t2 = iso_date (now w) \<longrightarrow> backup_key (w1\<lparr>now := t2\<rparr>) = backup_key w)"
proof -
  let ?w = "w1\<lparr>now := t2\<rparr>"
  from pushToCloud_ok [OF p1] obtain a1 up1 v1 o1 where
    a1: "push_appData P ld w = Inr a1"
    and u1: "push_uploadData P (JSON_stringify P (dataToSync a1 w)) w = (Inr up1, v1)"
    and c1: "config w1 = config w" and l1: "localStorage w1 = localStorage w"
    and o1: "map_of (bucket w1) (backup_key w) = Some o1" "obj_data o1 = up1"
    by blast
  from pushToCloud_ok [OF p2] obtain a2 up2 v2 o2 where
    a2: "push_appData P ld ?w = Inr a2"
    and u2: "push_uploadData P (JSON_stringify P (dataToSync a2 ?w)) ?w = (Inr up2, v2)"
    and o2: "map_of (bucket w2) (backup_key ?w) = Some o2" "obj_data o2 = up2"
    and rest: "\<forall>k. k \<noteq> backup_key ?w \<and> k \<noteq> ''typingmind-metadata.json'' \<longrightarrow>
                map_of (bucket w2) k = map_of (bucket ?w) k"
    by blast
  have ls: "localStorage ?w = localStorage w" using l1 by simp
  have agree: "\<forall>k. k \<noteq> ''timestamp'' \<longrightarrow> get_prop a1 k = get_prop a2 k"
    using push_appData_agree [OF a1 a2 ls] by blast
  have plain: "\<not> encryptionEnabled (config w) \<longrightarrow>
              up1 = utf8_encode P (JSON_stringify P (dataToSync a1 w)) \<and>
              up2 = utf8_encode P (JSON_stringify P (dataToSync a2 ?w))"
    using u1 u2 c1 by (auto simp: push_uploadData_def)
  have keys: "backup_key ?w = backup_key w \<longleftrightarrow> iso_date t2 = iso_date (now w)"
    using c1 by (simp add: backup_key_def)
  have first: "\<exists>o1. map_of (bucket w2) (backup_key w) = Some o1 \<and> obj_data o1 = up1"
    if "iso_date t2 \<noteq> iso_date (now w)"
  proof -
    from that keys have "backup_key w \<noteq> backup_key ?w" by auto
    with rest backup_key_not_metadata [of w]
    have "map_of (bucket w2) (backup_key w) = map_of (bucket ?w) (backup_key w)" by blast
    with o1 show ?thesis by simp
  qed
  from a1 a2 agree u1 u2 plain o2 keys first show ?thesis by blast
qed

text \<open>
  The claim promises two distinct objects for any two pushes in succession; two pushes
  on the same day leave one backup object.
\<close>

theorem two_pushes_same_day_one_object:
  "fst (pushToCloud toy_platform None toy_world) = Inr True \<and>
   fst (pushToCloud toy_platform None
          ((snd (pushToCloud toy_platform None toy_world))\<lparr>now := later_same_day\<rparr>)) = Inr True \<and>
   map fst (filter (\<lambda>(k, obj). prefix ''typingmind-backup-'' k)
     (bucket (snd (pushToCloud toy_platform None
          ((snd (pushToCloud toy_platform None toy_world))\<lparr>now := later_same_day\<rparr>)))))
     = [''typingmind-backup-2024-01-02.json'']"
  by code_simp

theorem two_pushes_in_succession_witness:
  "map_of (bucket (snd (pushToCloud toy_platform None
          ((snd (pushToCloud toy_platform None toy_world))\<lparr>now := next_day\<rparr>))))
      ''typingmind-backup-2024-01-02.json'' \<noteq> None \<and>
   map_of (bucket (snd (pushToCloud toy_platform None
          ((snd (pushToCloud toy_platform None toy_world))\<lparr>now := next_day\<rparr>))))
      ''typingmind-backup-2024-01-03.json'' \<noteq> None"
proof -
  let ?w1 = "snd (pushToCloud toy_platform None toy_world)"
  let ?w2 = "snd (pushToCloud toy_platform None (?w1\<lparr>now := next_day\<rparr>))"
  have "fst (pushToCloud toy_platform None toy_world) = Inr True" by code_simp
  then have p1: "pushToCloud toy_platform None toy_world = (Inr True, ?w1)"
    by (cases "pushToCloud toy_platform None toy_world") simp
  have "fst (pushToCloud toy_platform None (?w1\<lparr>now := next_day\<rparr>)) = Inr True" by code_simp
  then have p2: "pushToCloud toy_platform None (?w1\<lparr>now := next_day\<rparr>) = (Inr True, ?w2)"
    by (cases "pushToCloud toy_platform None (?w1\<lparr>now := next_day\<rparr>)") simp
  have k1: "backup_key toy_world = ''typingmind-backup-2024-01-02.json''"
    by (simp add: backup_key_def toy_world_def toy_config_def)
  have "config ?w1 = config toy_world" using pushToCloud_ok [OF p1] by blast
  then have k2: "backup_key (?w1\<lparr>now := next_day\<rparr>) = ''typingmind-backup-2024-01-03.json''"
    by (simp add: backup_key_def toy_world_def toy_config_def next_day_def)
  have d: "iso_date next_day \<noteq> iso_date (now toy_world)"
    by (simp add: next_day_def toy_world_def)
  from two_pushes_in_succession [OF p1 p2] d show ?thesis
    unfolding k1 k2 by auto
qed

end
